theory Spec2Isabelle
  imports Complex_Main
begin

chapter \<open>The RFP bid assessment workflow\<close>

text \<open>
  A shallow embedding of the three API routes (\<^verbatim>\<open>process-rfp\<close>, the bid assessment
  route, \<^verbatim>\<open>analyze-all\<close>) and of the client orchestrator \<^verbatim>\<open>page.tsx\<close>.
  The external collaborators (the blob service, the model endpoint, \<^verbatim>\<open>fetch\<close>,
  \<^verbatim>\<open>JSON.parse\<close>) appear only through their outcomes, which are inputs of the
  model; every call the code makes to them is recorded in a list of effects.
\<close>

section \<open>Strings and numbers of the host language\<close>

text \<open>
  Strings are lists of characters. The only operations the routes use are
  concatenation (template literals), \<^verbatim>\<open>Array.prototype.join\<close> and the decimal
  rendering of array indices and lengths.
\<close>

definition newline :: char where
  "newline = CHR 0x0A"

definition digit_char :: "nat \<Rightarrow> char" where
  "digit_char d = ''0123456789'' ! d"

text \<open>\<^verbatim>\<open>String(n)\<close> for a non-negative integer \<open>n\<close>.\<close>

fun show_nat :: "nat \<Rightarrow> string" where
  "show_nat n =
     (if n < 10 then [digit_char n]
      else show_nat (n div 10) @ [digit_char (n mod 10)])"

declare show_nat.simps [simp del]

text \<open>\<^verbatim>\<open>xs.join(sep)\<close>.\<close>

fun join :: "string \<Rightarrow> string list \<Rightarrow> string" where
  "join sep [] = []"
| "join sep [x] = x"
| "join sep (x # y # ys) = x @ sep @ join sep (y # ys)"

text \<open>\<^verbatim>\<open>xs.map((x, index) => f(x, index))\<close>: the callback sees the 0-based index.\<close>

definition map_index :: "('a \<Rightarrow> nat \<Rightarrow> 'b) \<Rightarrow> 'a list \<Rightarrow> 'b list" where
  "map_index f xs = map (\<lambda>(i, x). f x i) (enumerate 0 xs)"

text \<open>
  \<^verbatim>\<open>s.split(c)\<close> for a one-character separator: the lines of a block. It is used
  only to state what a rendered block looks like when it is read back line by line.
\<close>

fun split_on :: "char \<Rightarrow> string \<Rightarrow> string list" where
  "split_on c [] = [[]]"
| "split_on c (x # xs) =
     (if x = c then [] # split_on c xs
      else (case split_on c xs of
              [] \<Rightarrow> [[x]]
            | l # ls \<Rightarrow> (x # l) # ls))"

section \<open>The data model\<close>

text \<open>
  The interfaces of \<^verbatim>\<open>page.tsx\<close>. \<^verbatim>\<open>RFPData\<close> is a document with plain
  requirements; \<^verbatim>\<open>BidData\<close> has the same three fields, \<^verbatim>\<open>totalCost\<close> and
  \<^verbatim>\<open>timeline\<close>, and requirements that carry a verdict. Numbers are rationals.
\<close>

record Requirement =
  "text" :: string
  category :: string

record BidRequirement = Requirement +
  isSatisfied :: bool
  reason :: string

record 'r document =
  title :: string
  rawText :: string
  requirements :: "'r list"

record 'r bid_document = "'r document" +
  totalCost :: rat
  timeline :: string

type_synonym RFPData = "Requirement document"

type_synonym BidData = "BidRequirement bid_document"

section \<open>Rendering the requirement list\<close>

text \<open>
  The assessment route:
  \<^verbatim>\<open>requirements.map((req, index) => `${index + 1}. [${req.category}] ${req.text}`).join("\n")\<close>
\<close>

definition requirementLine :: "Requirement \<Rightarrow> nat \<Rightarrow> string" where
  "requirementLine req index =
     show_nat (index + 1) @ ''. ['' @ category req @ ''] '' @ text req"

definition requirementsText :: "Requirement list \<Rightarrow> string" where
  "requirementsText reqs = join [newline] (map_index requirementLine reqs)"

text \<open>The analysis route renders \<^verbatim>\<open>rfp.requirements\<close> with the same expression.\<close>

definition rfpRequirementsText :: "RFPData \<Rightarrow> string" where
  "rfpRequirementsText rfp =
     join [newline]
       (map_index (\<lambda>req index. show_nat (index + 1) @ ''. ['' @ category req @ ''] '' @ text req)
          (requirements rfp))"

section \<open>Structured values and output schemas\<close>

text \<open>
  A JSON value, as \<^verbatim>\<open>JSON.parse\<close> and the model endpoint deliver it. An object is
  the list of its properties; a property is looked up by its key.
\<close>

datatype json =
    JNull
  | JBool bool
  | JNum rat
  | JStr string
  | JArr "json list"
  | JObj "(string \<times> json) list"

text \<open>
  The schema combinators the routes use: \<^verbatim>\<open>z.string()\<close>, \<^verbatim>\<open>z.number()\<close>,
  \<^verbatim>\<open>z.boolean()\<close>, \<^verbatim>\<open>z.array(s)\<close> and \<^verbatim>\<open>z.object({...})\<close>. The
  \<^verbatim>\<open>.describe(...)\<close> annotations are documentation for the model and play no part in
  validation.
\<close>

datatype schema =
    ZString
  | ZNumber
  | ZBoolean
  | ZArray schema
  | ZObject "(string \<times> schema) list"

text \<open>
  Validation of a value against a schema. Every key of an object schema is required,
  a value of another type is refused, and the validated object keeps the schema's keys
  only. \<open>None\<close> is a schema violation.
\<close>

fun zparse :: "schema \<Rightarrow> json \<Rightarrow> json option" where
  "zparse ZString (JStr s) = Some (JStr s)"
| "zparse ZNumber (JNum n) = Some (JNum n)"
| "zparse ZBoolean (JBool b) = Some (JBool b)"
| "zparse (ZArray s) (JArr xs) = map_option JArr (those (map (zparse s) xs))"
| "zparse (ZObject fs) (JObj kvs) =
     map_option JObj
       (those (map (\<lambda>(k, s). case map_of kvs k of
                                 None \<Rightarrow> None
                               | Some v \<Rightarrow> map_option (Pair k) (zparse s v)) fs))"
| "zparse _ _ = None"

text \<open>\<^verbatim>\<open>rfpSchema\<close> of \<^verbatim>\<open>process-rfp/route.ts\<close>.\<close>

definition rfpSchema :: schema where
  "rfpSchema = ZObject
     [(''title'', ZString),
      (''rawText'', ZString),
      (''requirements'', ZArray (ZObject [(''text'', ZString), (''category'', ZString)]))]"

text \<open>\<^verbatim>\<open>bidSchema\<close> of the assessment route.\<close>

definition bidSchema :: schema where
  "bidSchema = ZObject
     [(''title'', ZString),
      (''rawText'', ZString),
      (''totalCost'', ZNumber),
      (''timeline'', ZString),
      (''requirements'', ZArray (ZObject
         [(''text'', ZString),
          (''category'', ZString),
          (''isSatisfied'', ZBoolean),
          (''reason'', ZString)]))]"

text \<open>\<^verbatim>\<open>analysisSchema\<close> of \<^verbatim>\<open>analyze-all/route.ts\<close>.\<close>

definition analysisSchema :: schema where
  "analysisSchema = ZObject
     [(''recommendation'', ZString),
      (''recommendationReason'', ZString),
      (''openQuestions'', ZArray (ZObject
         [(''companyName'', ZString),
          (''openQuestions'', ZArray ZString)]))]"

text \<open>
  \<^verbatim>\<open>AnalysisData\<close> of \<^verbatim>\<open>page.tsx\<close>. The inner interface has a field
  \<^verbatim>\<open>openQuestions\<close> of its own, here \<open>questions\<close>.
\<close>

record CompanyQuestions =
  companyName :: string
  questions :: "string list"

record AnalysisData =
  recommendation :: string
  mainRecommendationReason :: string
  supportingRecommendationPoints :: "string list"
  openQuestions :: "CompanyQuestions list"

text \<open>The records as JSON objects: the shapes the interfaces describe.\<close>

definition Requirement_json :: "Requirement \<Rightarrow> json" where
  "Requirement_json r = JObj [(''text'', JStr (text r)), (''category'', JStr (category r))]"

definition BidRequirement_json :: "BidRequirement \<Rightarrow> json" where
  "BidRequirement_json r = JObj
     [(''text'', JStr (text r)),
      (''category'', JStr (category r)),
      (''isSatisfied'', JBool (isSatisfied r)),
      (''reason'', JStr (reason r))]"

definition RFPData_json :: "RFPData \<Rightarrow> json" where
  "RFPData_json d = JObj
     [(''title'', JStr (title d)),
      (''rawText'', JStr (rawText d)),
      (''requirements'', JArr (map Requirement_json (requirements d)))]"

definition BidData_json :: "BidData \<Rightarrow> json" where
  "BidData_json b = JObj
     [(''title'', JStr (title b)),
      (''rawText'', JStr (rawText b)),
      (''totalCost'', JNum (totalCost b)),
      (''timeline'', JStr (timeline b)),
      (''requirements'', JArr (map BidRequirement_json (requirements b)))]"

definition CompanyQuestions_json :: "CompanyQuestions \<Rightarrow> json" where
  "CompanyQuestions_json c = JObj
     [(''companyName'', JStr (companyName c)),
      (''openQuestions'', JArr (map JStr (questions c)))]"

definition AnalysisData_json :: "AnalysisData \<Rightarrow> json" where
  "AnalysisData_json a = JObj
     [(''recommendation'', JStr (recommendation a)),
      (''mainRecommendationReason'', JStr (mainRecommendationReason a)),
      (''supportingRecommendationPoints'', JArr (map JStr (supportingRecommendationPoints a))),
      (''openQuestions'', JArr (map CompanyQuestions_json (openQuestions a)))]"

section \<open>The environment of a route\<close>

text \<open>
  A thrown value: an \<^verbatim>\<open>Error\<close> with its message, or anything else. The handlers
  distinguish the two with \<^verbatim>\<open>error instanceof Error\<close>.
\<close>

datatype thrown = Error string | NonError

text \<open>
  What a route does to the outside world, in order: \<^verbatim>\<open>put(fileName, ...)\<close>, the
  model call with the parts of its user message, \<^verbatim>\<open>del(url)\<close> and
  \<^verbatim>\<open>console.error\<close> with its label.
\<close>

datatype content_part = FilePart string | TextPart string

datatype effect =
    BlobPut string
  | ModelCall "content_part list"
  | BlobDel string
  | ConsoleError string

text \<open>
  The outcomes of the external calls of one request: the clock, the URL \<^verbatim>\<open>put\<close>
  returns (or what it throws), whether \<^verbatim>\<open>new URL(blobUrl)\<close> throws, the structured
  reply of the model before validation (or what the call throws), what \<^verbatim>\<open>del\<close>
  throws if it does, and the host's \<^verbatim>\<open>Number.prototype.toLocaleString\<close>.
\<close>

record env =
  now :: nat
  put_outcome :: "thrown + string"
  new_URL_outcome :: "thrown option"
  model_outcome :: "thrown + json"
  del_outcome :: "thrown option"
  toLocaleString :: "rat \<Rightarrow> string"

definition NoObjectGeneratedError :: thrown where
  "NoObjectGeneratedError = Error ''No object generated: response did not match schema.''"

text \<open>
  \<^verbatim>\<open>generateText({ output: Output.object({ schema }), ... })\<close>: the call throws what
  the endpoint throws; a reply that violates the schema is an error of the call; otherwise
  \<^verbatim>\<open>output\<close> is the validated value.
\<close>

definition generateText :: "schema \<Rightarrow> thrown + json \<Rightarrow> thrown + json" where
  "generateText sch outcome =
     (case outcome of
        Inl t \<Rightarrow> Inl t
      | Inr reply \<Rightarrow>
          (case zparse sch reply of
             None \<Rightarrow> Inl NoObjectGeneratedError
           | Some output \<Rightarrow> Inr output))"

text \<open>\<^verbatim>\<open>NextResponse.json(body, { status })\<close>.\<close>

datatype response_body = ErrorBody string | OutputBody json

record response =
  status :: nat
  body :: response_body

text \<open>How the \<^verbatim>\<open>try\<close> block of a handler ends.\<close>

datatype completion = Return response | Throw thrown

record File =
  file_name :: string
  file_type :: string
  file_size :: nat

definition maxSize :: nat where
  "maxSize = 10 * 1024 * 1024"

text \<open>
  The \<^verbatim>\<open>finally\<close> block of both upload routes: the staged blob is deleted when
  \<^verbatim>\<open>blobUrl\<close> is a non-empty string, and an error of \<^verbatim>\<open>del\<close> is logged.
\<close>

definition cleanup :: "string option \<Rightarrow> env \<Rightarrow> effect list" where
  "cleanup blobUrl e =
     (case blobUrl of
        None \<Rightarrow> []
      | Some url \<Rightarrow>
          if url = [] then []
          else (case del_outcome e of
                  None \<Rightarrow> [BlobDel url]
                | Some t \<Rightarrow> [BlobDel url, ConsoleError ''Error cleaning up blob file:'']))"

text \<open>
  The \<^verbatim>\<open>catch\<close> block: a thrown value becomes a 500 response carrying the error's
  message, or the route's fallback text, and is logged under the route's label.
\<close>

definition catch_error :: "string \<Rightarrow> string \<Rightarrow> completion \<Rightarrow> response \<times> effect list" where
  "catch_error label fallback c =
     (case c of
        Return r \<Rightarrow> (r, [])
      | Throw t \<Rightarrow>
          (\<lparr>status = 500, body = ErrorBody (case t of Error m \<Rightarrow> m | NonError \<Rightarrow> fallback)\<rparr>,
           [ConsoleError label]))"

section \<open>The extraction route\<close>

text \<open>
  \<^verbatim>\<open>POST\<close> of \<^verbatim>\<open>process-rfp/route.ts\<close>. The request is its form data, or what
  \<^verbatim>\<open>request.formData()\<close> throws. The \<^verbatim>\<open>try\<close> block yields how it ends, the
  value of \<^verbatim>\<open>blobUrl\<close> at that point and the calls made.
\<close>

datatype 'f form_request = FormDataError thrown | FormData 'f

definition rfp_try :: "File option form_request \<Rightarrow> env \<Rightarrow> completion \<times> string option \<times> effect list" where
  "rfp_try request e =
     (case request of
        FormDataError t \<Rightarrow> (Throw t, None, [])
      | FormData None \<Rightarrow>
          (Return \<lparr>status = 400, body = ErrorBody ''No file provided''\<rparr>, None, [])
      | FormData (Some f) \<Rightarrow>
          if file_type f \<noteq> ''application/pdf'' then
            (Return \<lparr>status = 400, body = ErrorBody ''File must be a PDF''\<rparr>, None, [])
          else if file_size f > maxSize then
            (Return \<lparr>status = 400, body = ErrorBody ''File size must be less than 10MB''\<rparr>,
             None, [])
          else
            (let fileName = ''rfp-'' @ show_nat (now e) @ ''-'' @ file_name f in
             case put_outcome e of
               Inl t \<Rightarrow> (Throw t, None, [BlobPut fileName])
             | Inr url \<Rightarrow>
                 if url = [] then
                   (Throw (Error ''Failed to upload file to blob storage''), Some url,
                    [BlobPut fileName])
                 else
                   (case new_URL_outcome e of
                      Some t \<Rightarrow> (Throw t, Some url, [BlobPut fileName])
                    | None \<Rightarrow>
                        (case generateText rfpSchema (model_outcome e) of
                           Inl t \<Rightarrow>
                             (Throw t, Some url, [BlobPut fileName, ModelCall [FilePart url]])
                         | Inr output \<Rightarrow>
                             (Return \<lparr>status = 200, body = OutputBody output\<rparr>, Some url,
                              [BlobPut fileName, ModelCall [FilePart url]])))))"

definition POST_rfp :: "File option form_request \<Rightarrow> env \<Rightarrow> response \<times> effect list" where
  "POST_rfp request e =
     (case rfp_try request e of
        (c, blobUrl, effs) \<Rightarrow>
          (case catch_error ''Error processing RFP:'' ''Failed to process RFP document'' c of
             (r, logged) \<Rightarrow> (r, effs @ logged @ cleanup blobUrl e)))"

section \<open>The assessment route\<close>

text \<open>
  \<^verbatim>\<open>POST\<close> of the bid route in its complete form, with validation, staging and
  cleanup (\<^verbatim>\<open>src/unnamed/part_000\<close>). The file \<^verbatim>\<open>process-bid/route.ts\<close> holds an
  earlier placeholder of the route, which reads nothing from the request and stages
  nothing; it is not modelled.

  The \<^verbatim>\<open>requirements\<close> form field, by what \<^verbatim>\<open>JSON.parse\<close> makes of it: it
  throws, it yields an array of requirements, it yields \<^verbatim>\<open>null\<close>, or it yields
  another value, which has no \<^verbatim>\<open>map\<close> method. An absent field and the empty string
  are both \<open>None\<close> in the form.
\<close>

datatype requirements_json =
  Unparseable | ParsesToArray "Requirement list" | ParsesToNull | ParsesToOther

text \<open>
  The \<^verbatim>\<open>TypeError\<close> of \<^verbatim>\<open>requirements.map\<close> when \<^verbatim>\<open>requirements\<close> is not an array.
\<close>

definition map_TypeError :: "requirements_json \<Rightarrow> thrown" where
  "map_TypeError parsed =
     (case parsed of
        ParsesToNull \<Rightarrow>
          Error (''Cannot read properties of null (reading '' @ [CHR 0x27] @ ''map''
                 @ [CHR 0x27] @ '')'')
      | _ \<Rightarrow> Error ''requirements.map is not a function'')"

record bid_form =
  form_file :: "File option"
  form_requirements :: "requirements_json option"

definition assessment_prompt :: "string \<Rightarrow> string" where
  "assessment_prompt reqsText =
     ''Please extract the title and raw text from this bid document, then assess it against the following RFP requirements. For each requirement, determine if it is satisfied by the bid and provide a reason.''
     @ [newline, newline] @ ''RFP Requirements:'' @ [newline] @ reqsText"

definition bid_try :: "bid_form form_request \<Rightarrow> env \<Rightarrow> completion \<times> string option \<times> effect list" where
  "bid_try request e =
     (case request of
        FormDataError t \<Rightarrow> (Throw t, None, [])
      | FormData form \<Rightarrow>
          (case form_file form of
             None \<Rightarrow> (Return \<lparr>status = 400, body = ErrorBody ''No file provided''\<rparr>, None, [])
           | Some f \<Rightarrow>
               (case form_requirements form of
                  None \<Rightarrow>
                    (Return \<lparr>status = 400, body = ErrorBody ''No requirements provided''\<rparr>,
                     None, [])
                | Some Unparseable \<Rightarrow>
                    (Return \<lparr>status = 400, body = ErrorBody ''Invalid requirements JSON''\<rparr>,
                     None, [])
                | Some parsed \<Rightarrow>
                    if file_type f \<noteq> ''application/pdf'' then
                      (Return \<lparr>status = 400, body = ErrorBody ''File must be a PDF''\<rparr>, None, [])
                    else if file_size f > maxSize then
                      (Return \<lparr>status = 400,
                         body = ErrorBody ''File size must be less than 10MB''\<rparr>, None, [])
                    else
                      (let fileName = ''bid-'' @ show_nat (now e) @ ''-'' @ file_name f in
                       case put_outcome e of
                         Inl t \<Rightarrow> (Throw t, None, [BlobPut fileName])
                       | Inr url \<Rightarrow>
                           if url = [] then
                             (Throw (Error ''Failed to upload file to blob storage''), Some url,
                              [BlobPut fileName])
                           else
                             (case parsed of
                                ParsesToArray reqs \<Rightarrow>
                                  (case new_URL_outcome e of
                                     Some t \<Rightarrow> (Throw t, Some url, [BlobPut fileName])
                                   | None \<Rightarrow>
                                       (let call = ModelCall
                                          [FilePart url,
                                           TextPart (assessment_prompt (requirementsText reqs))]
                                        in case generateText bidSchema (model_outcome e) of
                                          Inl t \<Rightarrow> (Throw t, Some url, [BlobPut fileName, call])
                                        | Inr output \<Rightarrow>
                                            (Return \<lparr>status = 200, body = OutputBody output\<rparr>,
                                             Some url, [BlobPut fileName, call])))
                              | _ \<Rightarrow>
                                  (Throw (map_TypeError parsed), Some url,
                                   [BlobPut fileName]))))))"

definition POST_bid :: "bid_form form_request \<Rightarrow> env \<Rightarrow> response \<times> effect list" where
  "POST_bid request e =
     (case bid_try request e of
        (c, blobUrl, effs) \<Rightarrow>
          (case catch_error ''Error processing bid:'' ''Failed to process bid document'' c of
             (r, logged) \<Rightarrow> (r, effs @ logged @ cleanup blobUrl e)))"

section \<open>The analysis route\<close>

text \<open>
  The arithmetic of the satisfaction percentage. A number of the host is a double:
  \<^verbatim>\<open>NaN\<close>, \<^verbatim>\<open>Infinity\<close>, or a finite value, given by the rational it denotes. The
  result of a division or a multiplication is the exact result rounded to the nearest
  double, a tie going to the even significand. Only non-negative values in the normal
  range occur here (quotients and products of array lengths), so signs, overflow and
  subnormal values are left out.
\<close>

datatype number = NaN | Infinity | Finite rat

text \<open>The number of binary digits of a positive integer.\<close>

function bit_length :: "int \<Rightarrow> int" where
  "bit_length n = (if n \<le> 0 then 0 else 1 + bit_length (n div 2))"
  by pat_completeness auto
termination
  by (relation "measure nat") auto

declare bit_length.simps [simp del]

text \<open>The exponent \<open>e\<close> with \<open>2\<^sup>e \<le> q < 2\<^sup>e\<^sup>+\<^sup>1\<close>, for a positive \<open>q\<close>.\<close>

definition binary_exponent :: "rat \<Rightarrow> int" where
  "binary_exponent q =
     (case quotient_of q of
        (n, d) \<Rightarrow>
          (let k = bit_length n - bit_length d
           in if power_int 2 k \<le> q then k else k - 1))"

definition round_half_even :: "rat \<Rightarrow> int" where
  "round_half_even m =
     (let f = \<lfloor>m\<rfloor>; r = m - of_int f
      in if r < 1 / 2 then f
         else if 1 / 2 < r then f + 1
         else if even f then f else f + 1)"

text \<open>
  The double nearest to a non-negative rational: 53 significant binary digits, so the
  spacing of the doubles around \<open>q\<close> is \<open>2\<close> to the power \<open>binary_exponent q - 52\<close>.
\<close>

definition to_double :: "rat \<Rightarrow> rat" where
  "to_double q =
     (if q \<le> 0 then 0
      else (let ulp = power_int 2 (binary_exponent q - 52)
            in of_int (round_half_even (q / ulp)) * ulp))"

text \<open>
  \<^verbatim>\<open>a / b\<close> for two array lengths (\<open>total'\<close> below stands for \<^verbatim>\<open>total\<close>): \<^verbatim>\<open>NaN\<close>
  for \<open>0 / 0\<close>, \<^verbatim>\<open>Infinity\<close> for a positive dividend over 0.
\<close>

definition js_divide :: "nat \<Rightarrow> nat \<Rightarrow> number" where
  "js_divide a b =
     (if b = 0 then (if a = 0 then NaN else Infinity)
      else Finite (to_double (of_nat a / of_nat b)))"

text \<open>\<^verbatim>\<open>x * n\<close> for a non-negative integer literal \<open>n\<close>.\<close>

definition js_times :: "number \<Rightarrow> nat \<Rightarrow> number" where
  "js_times x n =
     (case x of
        NaN \<Rightarrow> NaN
      | Infinity \<Rightarrow> (if n = 0 then NaN else Infinity)
      | Finite q \<Rightarrow> Finite (to_double (q * of_nat n)))"

text \<open>
  \<^verbatim>\<open>Math.round\<close>: the integer nearest to the value of its argument, a tie going up.
  It is exact.
\<close>

definition Math_round :: "number \<Rightarrow> number" where
  "Math_round x =
     (case x of
        NaN \<Rightarrow> NaN
      | Infinity \<Rightarrow> Infinity
      | Finite q \<Rightarrow> Finite (of_int \<lfloor>q + 1 / 2\<rfloor>))"

definition show_int :: "int \<Rightarrow> string" where
  "show_int i = (if i < 0 then ''-'' @ show_nat (nat (- i)) else show_nat (nat i))"

text \<open>
  \<^verbatim>\<open>`${x}`\<close> for a number that is \<^verbatim>\<open>NaN\<close>, \<^verbatim>\<open>Infinity\<close> or an integer, which is
  what \<^verbatim>\<open>Math.round\<close> returns.
\<close>

definition number_to_string :: "number \<Rightarrow> string" where
  "number_to_string x =
     (case x of
        NaN \<Rightarrow> ''NaN''
      | Infinity \<Rightarrow> ''Infinity''
      | Finite q \<Rightarrow> show_int \<lfloor>q\<rfloor>)"

text \<open>The bullet of the detail lines, U+2022, in UTF-8.\<close>

definition bullet :: string where
  "bullet = [CHR 0xE2, CHR 0x80, CHR 0xA2]"

definition requirementDetail :: "BidRequirement \<Rightarrow> string" where
  "requirementDetail r =
     ''  '' @ bullet @ '' ['' @ category r @ ''] '' @ text r @ '' - ''
     @ (if isSatisfied r then ''SATISFIED'' else ''NOT SATISFIED'') @ '': '' @ reason r"

text \<open>
  \<^verbatim>\<open>Math.round((satisfied / total) * 100)\<close> as it is interpolated into the summary.
\<close>

definition satisfactionPercent :: "nat \<Rightarrow> nat \<Rightarrow> string" where
  "satisfactionPercent satisfied total' =
     number_to_string (Math_round (js_times (js_divide satisfied total') 100))"

text \<open>The summary of one bid: the callback of \<^verbatim>\<open>bids.map\<close>.\<close>

definition bidSummary :: "env \<Rightarrow> BidData \<Rightarrow> nat \<Rightarrow> string" where
  "bidSummary e bid index =
     (let satisfied = length (filter isSatisfied (requirements bid));
          total' = length (requirements bid)
      in ''Bid '' @ show_nat (index + 1) @ '': '' @ title bid @ [newline]
         @ ''- Total Cost: $'' @ toLocaleString e (totalCost bid) @ [newline]
         @ ''- Timeline: '' @ timeline bid @ [newline]
         @ ''- Requirements Satisfied: '' @ show_nat satisfied @ ''/'' @ show_nat total'
         @ '' ('' @ satisfactionPercent satisfied total' @ ''%)'' @ [newline]
         @ ''- Requirements Details:'' @ [newline]
         @ join [newline] (map requirementDetail (requirements bid)))"

definition bidsSummary :: "env \<Rightarrow> BidData list \<Rightarrow> string" where
  "bidsSummary e bids = join [newline, newline] (map_index (bidSummary e) bids)"

definition analysis_prompt :: "env \<Rightarrow> RFPData \<Rightarrow> BidData list \<Rightarrow> string" where
  "analysis_prompt e rfp bids =
     ''Please analyze the following RFP and all submitted bids. Provide a recommendation for the best bid with clear reasoning, and generate specific open questions for each company that should be asked to clarify their proposals.''
     @ [newline, newline] @ ''RFP Title: '' @ title rfp
     @ [newline, newline] @ ''RFP Requirements:'' @ [newline] @ rfpRequirementsText rfp
     @ [newline, newline] @ ''Submitted Bids:'' @ [newline] @ bidsSummary e bids
     @ [newline, newline] @ ''Please provide:'' @ [newline]
     @ ''1. A clear recommendation for which bid is best'' @ [newline]
     @ ''2. Detailed reasoning for your recommendation'' @ [newline]
     @ ''3. Specific open questions for each company that should be asked to clarify gaps, ambiguities, or areas needing more detail in their proposals.''"

text \<open>
  The request is the parsed body, or what \<^verbatim>\<open>request.json()\<close> throws. A \<open>bids\<close>
  field that is absent or not an array is \<open>None\<close>.
\<close>

datatype analyze_request = JsonError thrown | JsonBody "RFPData option" "BidData list option"

definition analyze_try :: "analyze_request \<Rightarrow> env \<Rightarrow> completion \<times> effect list" where
  "analyze_try request e =
     (case request of
        JsonError t \<Rightarrow> (Throw t, [])
      | JsonBody None _ \<Rightarrow>
          (Return \<lparr>status = 400, body = ErrorBody ''RFP data is required''\<rparr>, [])
      | JsonBody (Some rfp) None \<Rightarrow>
          (Return \<lparr>status = 400, body = ErrorBody ''At least one bid is required''\<rparr>, [])
      | JsonBody (Some rfp) (Some bids) \<Rightarrow>
          if bids = [] then
            (Return \<lparr>status = 400, body = ErrorBody ''At least one bid is required''\<rparr>, [])
          else
            (let call = ModelCall [TextPart (analysis_prompt e rfp bids)]
             in case generateText analysisSchema (model_outcome e) of
               Inl t \<Rightarrow> (Throw t, [call])
             | Inr output \<Rightarrow> (Return \<lparr>status = 200, body = OutputBody output\<rparr>, [call])))"

definition POST_analyze :: "analyze_request \<Rightarrow> env \<Rightarrow> response \<times> effect list" where
  "POST_analyze request e =
     (case analyze_try request e of
        (c, effs) \<Rightarrow>
          (case catch_error ''Error analyzing bids:'' ''Failed to analyze bids'' c of
             (r, logged) \<Rightarrow> (r, effs @ logged)))"

section \<open>The orchestrator\<close>

text \<open>
  The state of the page component, one field per \<^verbatim>\<open>useState\<close> (the two drag flags,
  which only style the drop zones, are left out).
\<close>

record state =
  rfpFile :: "File option"
  isRfpUploading :: bool
  rfpData :: "RFPData option"
  bidFile :: "File option"
  isBidUploading :: bool
  bids :: "BidData list"
  expandedBidIndex :: "nat option"
  analysisData :: "AnalysisData option"
  isAnalyzing :: bool
  error :: "string option"

definition initial_state :: state where
  "initial_state =
     \<lparr>rfpFile = None, isRfpUploading = False, rfpData = None,
      bidFile = None, isBidUploading = False, bids = [], expandedBidIndex = None,
      analysisData = None, isAnalyzing = False, error = None\<rparr>"

text \<open>
  The durable store holds one string under \<^verbatim>\<open>STORAGE_KEY\<close>. The string is represented
  by what \<^verbatim>\<open>JSON.parse\<close> makes of it: it throws (\<open>Malformed\<close>), or it yields
  \<^verbatim>\<open>null\<close>, an object, or another value (a number, a string, a boolean, an array),
  which has none of the three properties. A property of the object is missing, is
  \<^verbatim>\<open>null\<close>, or holds a value of the interface the code assigns it to.
\<close>

datatype 'a property = Undefined | Null | Value 'a

record stored_project =
  stored_rfpData :: "RFPData property"
  stored_bids :: "BidData list property"
  stored_analysisData :: "AnalysisData property"

datatype parsed = ParsedNull | ParsedObject stored_project | ParsedOther

datatype stored_item = EmptyString | Malformed | Parses parsed

text \<open>
  The page and its surroundings: the component state, the item of the store
  (\<open>None\<close> when \<^verbatim>\<open>getItem\<close> returns \<^verbatim>\<open>null\<close>) and the labels of the
  \<^verbatim>\<open>console.error\<close> calls so far.
\<close>

record world =
  ui :: state
  localStorage :: "stored_item option"
  console :: "string list"

text \<open>\<^verbatim>\<open>JSON.stringify({ rfpData, bids, analysisData })\<close>, as the string that parses back to it.\<close>

definition JSON_stringify :: "state \<Rightarrow> stored_item" where
  "JSON_stringify s =
     Parses (ParsedObject
       \<lparr>stored_rfpData = (case rfpData s of None \<Rightarrow> Null | Some r \<Rightarrow> Value r),
        stored_bids = Value (bids s),
        stored_analysisData = (case analysisData s of None \<Rightarrow> Null | Some a \<Rightarrow> Value a)\<rparr>)"

text \<open>
  The body of the \<^verbatim>\<open>try\<close> block of the load effect: \<^verbatim>\<open>JSON.parse\<close> throws a
  \<^verbatim>\<open>SyntaxError\<close>, reading a property of \<^verbatim>\<open>null\<close> throws a \<^verbatim>\<open>TypeError\<close>, and
  each setter is called when its property is truthy (an object or an array always is).
\<close>

definition try_restore :: "stored_item \<Rightarrow> state \<Rightarrow> thrown + state" where
  "try_restore item s =
     (case item of
        EmptyString \<Rightarrow> Inl (Error ''Unexpected end of JSON input'')
      | Malformed \<Rightarrow> Inl (Error ''Unexpected token'')
      | Parses ParsedNull \<Rightarrow> Inl (Error ''Cannot read properties of null'')
      | Parses ParsedOther \<Rightarrow> Inr s
      | Parses (ParsedObject data) \<Rightarrow>
          (let s1 = (case stored_rfpData data of Value r \<Rightarrow> s\<lparr>rfpData := Some r\<rparr> | _ \<Rightarrow> s);
               s2 = (case stored_bids data of Value b \<Rightarrow> s1\<lparr>bids := b\<rparr> | _ \<Rightarrow> s1);
               s3 = (case stored_analysisData data of
                       Value a \<Rightarrow> s2\<lparr>analysisData := Some a\<rparr>
                     | _ \<Rightarrow> s2)
           in Inr s3))"

text \<open>
  The load effect: nothing happens when the item is absent or empty; otherwise the
  \<^verbatim>\<open>try\<close> block runs, and what it throws is caught and logged.
\<close>

definition loadEffect :: "world \<Rightarrow> world" where
  "loadEffect w =
     (case localStorage w of
        None \<Rightarrow> w
      | Some stored \<Rightarrow>
          if stored = EmptyString then w
          else (case try_restore stored (ui w) of
                  Inr s \<Rightarrow> w\<lparr>ui := s\<rparr>
                | Inl err \<Rightarrow> w\<lparr>console := console w @ [''Failed to load stored data:'']\<rparr>))"

text \<open>The save effect.\<close>

definition saveEffect :: "world \<Rightarrow> world" where
  "saveEffect w =
     (if rfpData (ui w) \<noteq> None \<or> length (bids (ui w)) > 0 \<or> analysisData (ui w) \<noteq> None
      then w\<lparr>localStorage := Some (JSON_stringify (ui w))\<rparr>
      else w)"

text \<open>
  After a render the save effect runs when one of its dependencies
  \<^verbatim>\<open>[rfpData, bids, analysisData]\<close> has changed since the previous render
  (\<open>previous\<close> is the state it showed). Dependencies are compared by value here; a
  setter that stores an equal value again would make the effect write the same string.
\<close>

definition rerender :: "state \<Rightarrow> world \<Rightarrow> world" where
  "rerender previous w =
     (if rfpData (ui w) = rfpData previous \<and> bids (ui w) = bids previous
         \<and> analysisData (ui w) = analysisData previous
      then w
      else saveEffect w)"

definition validateFile :: "File \<Rightarrow> string option" where
  "validateFile fileToValidate =
     (if file_type fileToValidate \<noteq> ''application/pdf'' then Some ''Please upload a PDF file''
      else if file_size fileToValidate > maxSize then Some ''File size must be less than 10MB''
      else None)"

definition handleRfpFileSelect :: "File \<Rightarrow> state \<Rightarrow> state" where
  "handleRfpFileSelect selectedFile s =
     (case validateFile selectedFile of
        Some validationError \<Rightarrow> s\<lparr>error := Some validationError, rfpFile := None\<rparr>
      | None \<Rightarrow> s\<lparr>error := None, rfpFile := Some selectedFile\<rparr>)"

definition handleBidFileSelect :: "File \<Rightarrow> state \<Rightarrow> state" where
  "handleBidFileSelect selectedFile s =
     (case validateFile selectedFile of
        Some validationError \<Rightarrow> s\<lparr>error := Some validationError, bidFile := None\<rparr>
      | None \<Rightarrow> s\<lparr>error := None, bidFile := Some selectedFile\<rparr>)"

text \<open>
  How a request of the page ends: \<^verbatim>\<open>fetch\<close> or \<^verbatim>\<open>response.json()\<close> throws; the
  response is not \<^verbatim>\<open>ok\<close> and its body has the given \<^verbatim>\<open>error\<close> field (\<open>None\<close>
  when it has none); or the response is \<^verbatim>\<open>ok\<close> and carries \<^verbatim>\<open>output\<close>.
\<close>

datatype 'a fetch_result = Rejected thrown | NotOk "string option" | Ok 'a

text \<open>\<^verbatim>\<open>errorData.error || fallback\<close>.\<close>

definition or_fallback :: "string option \<Rightarrow> string \<Rightarrow> string" where
  "or_fallback e fallback =
     (case e of None \<Rightarrow> fallback | Some m \<Rightarrow> if m = [] then fallback else m)"

text \<open>\<^verbatim>\<open>err instanceof Error ? err.message : "An unexpected error occurred"\<close>.\<close>

definition error_message :: "thrown \<Rightarrow> string" where
  "error_message err =
     (case err of Error m \<Rightarrow> m | NonError \<Rightarrow> ''An unexpected error occurred'')"

text \<open>
  The three stage handlers are asynchronous: each tests its guard, sets its busy flag and
  issues the request, and the rest of its body runs when the request settles, with
  whatever the state is by then. The two halves are given separately: \<open>begin\<close> is
  what runs up to \<^verbatim>\<open>await fetch\<close>, \<open>complete\<close> is what runs after it (the setters of
  the \<^verbatim>\<open>try\<close> block, the \<^verbatim>\<open>catch\<close> and the \<^verbatim>\<open>finally\<close>). No setter of the second
  half reads a value captured by the first: \<^verbatim>\<open>setBids\<close> takes the current list.
\<close>

definition beginRfpUpload :: "state \<Rightarrow> state" where
  "beginRfpUpload s = s\<lparr>isRfpUploading := True, error := None\<rparr>"

definition completeRfpUpload :: "RFPData fetch_result \<Rightarrow> state \<Rightarrow> state" where
  "completeRfpUpload result s =
     (case result of
        Ok output \<Rightarrow> s\<lparr>rfpData := Some output, rfpFile := None\<rparr>
      | NotOk e \<Rightarrow> s\<lparr>error := Some (or_fallback e ''Failed to extract RFP data'')\<rparr>
      | Rejected err \<Rightarrow> s\<lparr>error := Some (error_message err)\<rparr>)
     \<lparr>isRfpUploading := False\<rparr>"

definition beginBidUpload :: "state \<Rightarrow> state" where
  "beginBidUpload s = s\<lparr>isBidUploading := True, error := None\<rparr>"

definition completeBidUpload :: "BidData fetch_result \<Rightarrow> state \<Rightarrow> state" where
  "completeBidUpload result s =
     (case result of
        Ok output \<Rightarrow> s\<lparr>bids := bids s @ [output], bidFile := None\<rparr>
      | NotOk e \<Rightarrow> s\<lparr>error := Some (or_fallback e ''Failed to process bid'')\<rparr>
      | Rejected err \<Rightarrow> s\<lparr>error := Some (error_message err)\<rparr>)
     \<lparr>isBidUploading := False\<rparr>"

definition beginAnalyzeAll :: "state \<Rightarrow> state" where
  "beginAnalyzeAll s = s\<lparr>isAnalyzing := True, error := None\<rparr>"

definition completeAnalyzeAll :: "AnalysisData fetch_result \<Rightarrow> state \<Rightarrow> state" where
  "completeAnalyzeAll result s =
     (case result of
        Ok output \<Rightarrow> s\<lparr>analysisData := Some output\<rparr>
      | NotOk e \<Rightarrow> s\<lparr>error := Some (or_fallback e ''Failed to analyze bids'')\<rparr>
      | Rejected err \<Rightarrow> s\<lparr>error := Some (error_message err)\<rparr>)
     \<lparr>isAnalyzing := False\<rparr>"

text \<open>
  A handler whose request settles with \<open>result\<close> before any other event: the guard, the
  first half and the second half in one step.
\<close>

definition handleRfpUpload :: "RFPData fetch_result \<Rightarrow> state \<Rightarrow> state" where
  "handleRfpUpload result s =
     (if rfpFile s = None then s
      else completeRfpUpload result (beginRfpUpload s))"

definition handleBidUpload :: "BidData fetch_result \<Rightarrow> state \<Rightarrow> state" where
  "handleBidUpload result s =
     (if bidFile s = None \<or> rfpData s = None then s
      else completeBidUpload result (beginBidUpload s))"

definition handleAnalyzeAll :: "AnalysisData fetch_result \<Rightarrow> state \<Rightarrow> state" where
  "handleAnalyzeAll result s =
     (if rfpData s = None \<or> length (bids s) = 0 then
        s\<lparr>error := Some ''Please upload an RFP and at least one bid before analyzing''\<rparr>
      else completeAnalyzeAll result (beginAnalyzeAll s))"

text \<open>
  The same handlers with the request left in flight. A request is issued by the effect
  that watches the selected file (or, for the analysis, by the button, which is disabled
  while \<^verbatim>\<open>isAnalyzing\<close>): the effect calls the handler when a file is selected and no
  upload of that kind is running, and the handler tests its own guard. The busy flag is
  set exactly while the request is in flight, so a result is delivered only when the flag
  is set.
\<close>

definition issueRfpUpload :: "state \<Rightarrow> state" where
  "issueRfpUpload s =
     (if rfpFile s \<noteq> None \<and> \<not> isRfpUploading s then
        (if rfpFile s = None then s else beginRfpUpload s)
      else s)"

definition settleRfpUpload :: "RFPData fetch_result \<Rightarrow> state \<Rightarrow> state" where
  "settleRfpUpload result s = (if isRfpUploading s then completeRfpUpload result s else s)"

definition issueBidUpload :: "state \<Rightarrow> state" where
  "issueBidUpload s =
     (if bidFile s \<noteq> None \<and> rfpData s \<noteq> None \<and> \<not> isBidUploading s then
        (if bidFile s = None \<or> rfpData s = None then s else beginBidUpload s)
      else s)"

definition settleBidUpload :: "BidData fetch_result \<Rightarrow> state \<Rightarrow> state" where
  "settleBidUpload result s = (if isBidUploading s then completeBidUpload result s else s)"

definition issueAnalyzeAll :: "state \<Rightarrow> state" where
  "issueAnalyzeAll s =
     (if isAnalyzing s then s
      else if rfpData s = None \<or> length (bids s) = 0 then
        s\<lparr>error := Some ''Please upload an RFP and at least one bid before analyzing''\<rparr>
      else beginAnalyzeAll s)"

definition settleAnalyzeAll :: "AnalysisData fetch_result \<Rightarrow> state \<Rightarrow> state" where
  "settleAnalyzeAll result s = (if isAnalyzing s then completeAnalyzeAll result s else s)"

text \<open>\<^verbatim>\<open>handleStartNewProject\<close>: the setters, then \<^verbatim>\<open>localStorage.removeItem\<close>.\<close>

definition handleStartNewProject :: "world \<Rightarrow> world" where
  "handleStartNewProject w =
     w\<lparr>ui := (ui w)\<lparr>rfpFile := None, rfpData := None, bidFile := None, bids := [],
                     expandedBidIndex := None, analysisData := None, error := None\<rparr>,
       localStorage := None\<rparr>"

text \<open>
  The events of the page. A request is issued by one event and settled, with its result,
  by a later one, and any event may come in between: the Start New Project button is
  enabled while a request is in flight. \<open>RfpUpload\<close>, \<open>BidUpload\<close> and \<open>AnalyzeAll\<close>
  are the schedules in which nothing comes in between. \<open>Reload\<close> is a fresh load of
  the page: the component starts from its initial state, which drops the requests in
  flight, and the load effect runs against the store as it is (the save effect of the
  first render sees the initial values and writes nothing).
\<close>

datatype event =
    RfpFileSelect File
  | RfpUpload "RFPData fetch_result"
  | BidFileSelect File
  | BidUpload "BidData fetch_result"
  | AnalyzeAll "AnalysisData fetch_result"
  | ToggleBid nat
  | StartNewProject
  | Reload
  | RfpUploadIssued
  | RfpUploadSettled "RFPData fetch_result"
  | BidUploadIssued
  | BidUploadSettled "BidData fetch_result"
  | AnalyzeAllIssued
  | AnalyzeAllSettled "AnalysisData fetch_result"

fun handle :: "event \<Rightarrow> world \<Rightarrow> world" where
  "handle (RfpFileSelect f) w = w\<lparr>ui := handleRfpFileSelect f (ui w)\<rparr>"
| "handle (RfpUpload result) w = w\<lparr>ui := handleRfpUpload result (ui w)\<rparr>"
| "handle (BidFileSelect f) w = w\<lparr>ui := handleBidFileSelect f (ui w)\<rparr>"
| "handle (BidUpload result) w = w\<lparr>ui := handleBidUpload result (ui w)\<rparr>"
| "handle (AnalyzeAll result) w = w\<lparr>ui := handleAnalyzeAll result (ui w)\<rparr>"
| "handle (ToggleBid index) w =
     w\<lparr>ui := (ui w)\<lparr>expandedBidIndex :=
        (if expandedBidIndex (ui w) = Some index then None else Some index)\<rparr>\<rparr>"
| "handle StartNewProject w = handleStartNewProject w"
| "handle Reload w = loadEffect (w\<lparr>ui := initial_state\<rparr>)"
| "handle RfpUploadIssued w = w\<lparr>ui := issueRfpUpload (ui w)\<rparr>"
| "handle (RfpUploadSettled result) w = w\<lparr>ui := settleRfpUpload result (ui w)\<rparr>"
| "handle BidUploadIssued w = w\<lparr>ui := issueBidUpload (ui w)\<rparr>"
| "handle (BidUploadSettled result) w = w\<lparr>ui := settleBidUpload result (ui w)\<rparr>"
| "handle AnalyzeAllIssued w = w\<lparr>ui := issueAnalyzeAll (ui w)\<rparr>"
| "handle (AnalyzeAllSettled result) w = w\<lparr>ui := settleAnalyzeAll result (ui w)\<rparr>"

definition step :: "event \<Rightarrow> world \<Rightarrow> world" where
  "step ev w =
     rerender (case ev of Reload \<Rightarrow> initial_state | _ \<Rightarrow> ui w) (handle ev w)"

definition world0 :: world where
  "world0 = \<lparr>ui = initial_state, localStorage = None, console = []\<rparr>"

fun run :: "event list \<Rightarrow> world \<Rightarrow> world" where
  "run [] w = w"
| "run (ev # evs) w = run evs (step ev w)"

text \<open>
  The invariant of the project: bids only with an RFP, an analysis only with bids.
\<close>

definition project_invariant :: "state \<Rightarrow> bool" where
  "project_invariant s \<longleftrightarrow>
     (bids s \<noteq> [] \<longrightarrow> rfpData s \<noteq> None) \<and> (analysisData s \<noteq> None \<longrightarrow> bids s \<noteq> [])"

text \<open>A request that did not succeed.\<close>

fun failed :: "'a fetch_result \<Rightarrow> bool" where
  "failed (Ok _) = False"
| "failed _ = True"

text \<open>
  The project aggregate of a world together with its durable copy.
\<close>

definition project :: "world \<Rightarrow> RFPData option \<times> BidData list \<times> AnalysisData option \<times> stored_item option" where
  "project w = (rfpData (ui w), bids (ui w), analysisData (ui w), localStorage w)"

text \<open>
  A run in which Start New Project is pressed only while no assessment and no analysis
  request is in flight.
\<close>

fun resets_when_idle :: "event list \<Rightarrow> world \<Rightarrow> bool" where
  "resets_when_idle [] w = True"
| "resets_when_idle (ev # evs) w =
     ((ev = StartNewProject \<longrightarrow> \<not> isBidUploading (ui w) \<and> \<not> isAnalyzing (ui w))
      \<and> resets_when_idle evs (step ev w))"

text \<open>
  The invariant carried through every step of such a run: the project invariant holds of
  the state shown and of the state a reload would restore from the store, an assessment
  is in flight only with an RFP, and an analysis is in flight only with bids.
\<close>

definition flight_invariant :: "state \<Rightarrow> bool" where
  "flight_invariant s \<longleftrightarrow>
     project_invariant s
     \<and> (isBidUploading s \<longrightarrow> rfpData s \<noteq> None)
     \<and> (isAnalyzing s \<longrightarrow> bids s \<noteq> [])"

definition world_invariant :: "world \<Rightarrow> bool" where
  "world_invariant w \<longleftrightarrow>
     flight_invariant (ui w) \<and> project_invariant (ui (handle Reload w))"


text \<open>
  The calls a route makes to the blob service and to the model, in order, without the
  log lines.
\<close>

fun is_service_call :: "effect \<Rightarrow> bool" where
  "is_service_call (ConsoleError _) = False"
| "is_service_call _ = True"

definition service_calls :: "effect list \<Rightarrow> effect list" where
  "service_calls effs = filter is_service_call effs"

section \<open>Example inputs\<close>

text \<open>The end-to-end scenarios: an RFP with two requirements and one assessed bid.\<close>

definition example_requirements :: "Requirement list" where
  "example_requirements =
     [\<lparr>text = ''Must use licensed contractor'', category = ''Compliance''\<rparr>,
      \<lparr>text = ''Budget under $500k'', category = ''Financial''\<rparr>]"

definition example_rfp :: RFPData where
  "example_rfp =
     \<lparr>title = ''Acme Office Renovation'', rawText = ''...'',
      requirements = example_requirements\<rparr>"

definition example_bid :: BidData where
  "example_bid =
     \<lparr>title = ''BuildCo Proposal'', rawText = ''...'',
      requirements =
        [\<lparr>text = ''Must use licensed contractor'', category = ''Compliance'',
          isSatisfied = True, reason = ''Bid states BuildCo holds a state license''\<rparr>,
         \<lparr>text = ''Budget under $500k'', category = ''Financial'',
          isSatisfied = False, reason = ''No budget cap is stated''\<rparr>],
      totalCost = 420000, timeline = ''4 months''\<rparr>"

definition example_file :: File where
  "example_file =
     \<lparr>file_name = ''doc.pdf'', file_type = ''application/pdf'', file_size = 2 * 1024 * 1024\<rparr>"

text \<open>
  An environment in which staging succeeds and the model replies with \<open>reply\<close>. Its
  host renders numbers without digit grouping; a host whose default locale groups digits
  gives another \<^verbatim>\<open>toLocaleString\<close>, and no statement below depends on the choice.
\<close>

definition example_env :: "thrown + json \<Rightarrow> thrown option \<Rightarrow> env" where
  "example_env reply del_result =
     \<lparr>now = 1700,
      put_outcome = Inr ''https://blob.example/doc.pdf'',
      new_URL_outcome = None,
      model_outcome = reply,
      del_outcome = del_result,
      toLocaleString = (\<lambda>q. show_int \<lfloor>q\<rfloor>)\<rparr>"

definition example_bid_request :: "bid_form form_request" where
  "example_bid_request =
     FormData \<lparr>form_file = Some example_file,
               form_requirements = Some (ParsesToArray example_requirements)\<rparr>"

definition example_analysis :: AnalysisData where
  "example_analysis =
     \<lparr>recommendation = ''BuildCo Proposal'',
      mainRecommendationReason = ''Lowest cost within the timeline'',
      supportingRecommendationPoints = [''Holds a state license''],
      openQuestions =
        [\<lparr>companyName = ''BuildCo'', questions = [''What is the budget cap?'']\<rparr>]\<rparr>"

definition example_analyze_request :: analyze_request where
  "example_analyze_request = JsonBody (Some example_rfp) (Some [example_bid])"

text \<open>A bid as \<^verbatim>\<open>bidSchema\<close> admits it, with no requirement assessed.\<close>

definition empty_bid :: BidData where
  "empty_bid =
     \<lparr>title = ''BuildCo Proposal'', rawText = ''...'', requirements = [],
      totalCost = 420000, timeline = ''4 months''\<rparr>"

text \<open>
  A session: an RFP is extracted, one bid is assessed, the analysis is run and the page
  is reloaded.
\<close>

definition example_session :: "event list" where
  "example_session =
     [RfpFileSelect example_file, RfpUpload (Ok example_rfp),
      BidFileSelect example_file, BidUpload (Ok example_bid),
      AnalyzeAll (Ok example_analysis), Reload]"

text \<open>
  The same project built with every request in flight for a while, after a first RFP was
  discarded by a reset while nothing was in flight.
\<close>

definition idle_reset_session :: "event list" where
  "idle_reset_session =
     [RfpFileSelect example_file, RfpUploadIssued, RfpUploadSettled (Ok example_rfp),
      StartNewProject,
      RfpFileSelect example_file, RfpUploadIssued, RfpUploadSettled (Ok example_rfp),
      BidFileSelect example_file, BidUploadIssued, BidUploadSettled (Ok example_bid),
      AnalyzeAllIssued, AnalyzeAllSettled (Ok example_analysis), Reload]"

text \<open>
  A reset while the assessment of a bid is in flight: the RFP is extracted, a bid file is
  selected and its request issued, Start New Project is pressed, and then the assessment
  arrives.
\<close>

definition reset_during_assessment :: "event list" where
  "reset_during_assessment =
     [RfpFileSelect example_file, RfpUploadIssued, RfpUploadSettled (Ok example_rfp),
      BidFileSelect example_file, BidUploadIssued,
      StartNewProject,
      BidUploadSettled (Ok example_bid)]"

text \<open>A reset while the analysis is in flight.\<close>

definition reset_during_analysis :: "event list" where
  "reset_during_analysis =
     [RfpFileSelect example_file, RfpUploadIssued, RfpUploadSettled (Ok example_rfp),
      BidFileSelect example_file, BidUploadIssued, BidUploadSettled (Ok example_bid),
      AnalyzeAllIssued,
      StartNewProject,
      AnalyzeAllSettled (Ok example_analysis)]"

section \<open>Properties of the rendering\<close>

lemma split_on_not_Nil: "split_on c xs \<noteq> []"
  by (induction xs) (auto split: list.splits)

lemma split_on_free: "c \<notin> set l \<Longrightarrow> split_on c l = [l]"
  by (induction l) auto

lemma split_on_append:
  "c \<notin> set l \<Longrightarrow> split_on c (l @ c # rest) = l # split_on c rest"
  by (induction l) auto

lemma split_on_join:
  "ls \<noteq> [] \<Longrightarrow> \<forall>l\<in>set ls. c \<notin> set l \<Longrightarrow> split_on c (join [c] ls) = ls"
proof (induction "[c]" ls rule: join.induct)
  case 1
  then show ?case by simp
next
  case (2 x)
  then show ?case by (simp add: split_on_free)
next
  case (3 x y ys)
  then show ?case by (simp add: split_on_append)
qed

lemma digit_char_not_newline: "d < 10 \<Longrightarrow> digit_char d \<noteq> newline"
proof -
  assume "d < 10"
  then have "d \<in> {0, 1, 2, 3, 4, 5, 6, 7, 8, 9}" by auto
  then show ?thesis
    by (auto simp: digit_char_def newline_def)
qed

lemma show_nat_no_newline: "newline \<notin> set (show_nat n)"
proof (induction n rule: show_nat.induct)
  case (1 n)
  show ?case
  proof (cases "n < 10")
    case True
    then show ?thesis
      using digit_char_not_newline [of n] by (simp add: show_nat.simps [of n])
  next
    case False
    then have "newline \<notin> set (show_nat (n div 10))" using "1.IH" by simp
    moreover have "digit_char (n mod 10) \<noteq> newline"
      by (rule digit_char_not_newline) simp
    ultimately show ?thesis
      using False by (simp add: show_nat.simps [of n])
  qed
qed

lemma length_map_index: "length (map_index f xs) = length xs"
  by (simp add: map_index_def)

lemma nth_map_index: "i < length xs \<Longrightarrow> map_index f xs ! i = f (xs ! i) i"
  by (simp add: map_index_def nth_enumerate_eq)

lemma map_index_Nil_iff: "map_index f xs = [] \<longleftrightarrow> xs = []"
  by (cases xs) (simp_all add: map_index_def)

lemma requirementLine_no_newline:
  assumes "newline \<notin> set (text r)" and "newline \<notin> set (category r)"
  shows "newline \<notin> set (requirementLine r i)"
proof -
  have "newline \<notin> set ''. [''" and "newline \<notin> set ''] ''"
    by (simp_all add: newline_def)
  with assms show ?thesis
    using show_nat_no_newline [of "i + 1"] by (simp add: requirementLine_def)
qed

lemma rfpRequirementsText_eq: "rfpRequirementsText rfp = requirementsText (requirements rfp)"
  by (simp add: rfpRequirementsText_def requirementsText_def requirementLine_def [abs_def])

lemma requirementsText_split:
  assumes "reqs \<noteq> []"
    and "\<forall>r\<in>set reqs. newline \<notin> set (text r) \<and> newline \<notin> set (category r)"
  shows "split_on newline (requirementsText reqs) = map_index requirementLine reqs"
proof -
  have "\<forall>l\<in>set (map_index requirementLine reqs). newline \<notin> set l"
  proof
    fix l
    assume "l \<in> set (map_index requirementLine reqs)"
    then obtain i where i: "i < length reqs" and l: "l = map_index requirementLine reqs ! i"
      by (auto simp: in_set_conv_nth length_map_index)
    from i have "reqs ! i \<in> set reqs" by simp
    with assms(2) have "newline \<notin> set (requirementLine (reqs ! i) i)"
      by (simp add: requirementLine_no_newline)
    with i l show "newline \<notin> set l" by (simp add: nth_map_index)
  qed
  moreover have "map_index requirementLine reqs \<noteq> []"
    using assms(1) by (simp add: map_index_Nil_iff)
  ultimately show ?thesis
    unfolding requirementsText_def by (rule split_on_join [rotated])
qed

text \<open>
  C8, as stated, fails: a requirement whose text holds a line break is rendered on two
  lines, so the block of a one-element sequence has two lines.
\<close>

theorem requirementsText_line_count_counterexample:
  "length (split_on newline
     (requirementsText [\<lparr>text = ''a'' @ [newline] @ ''b'', category = ''c''\<rparr>]))
   \<noteq> length [\<lparr>text = ''a'' @ [newline] @ ''b'', category = ''c''\<rparr>]"
  by code_simp

text \<open>
  C8 (amended): for every non-empty requirement sequence in which no text and no
  category contains a line break, the block rendered by the assessment route and the
  block rendered by the analysis route have exactly one line per requirement, and line
  \<open>i\<close> (counting from 0) is \<^verbatim>\<open>"{i+1}. [{category}] {text}"\<close> of the \<open>i\<close>-th requirement:
  the index is 1-based and the order is the sequence's.
\<close>

theorem requirementsText_one_line_per_requirement:
  assumes "reqs \<noteq> []"
    and "\<forall>r\<in>set reqs. newline \<notin> set (text r) \<and> newline \<notin> set (category r)"
  shows "length (split_on newline (requirementsText reqs)) = length reqs
    \<and> (\<forall>i<length reqs.
          split_on newline (requirementsText reqs) ! i =
            show_nat (i + 1) @ ''. ['' @ category (reqs ! i) @ ''] '' @ text (reqs ! i))
    \<and> length (split_on newline (rfpRequirementsText \<lparr>title = t, rawText = raw, requirements = reqs\<rparr>))
         = length reqs
    \<and> (\<forall>i<length reqs.
          split_on newline (rfpRequirementsText \<lparr>title = t, rawText = raw, requirements = reqs\<rparr>) ! i =
            show_nat (i + 1) @ ''. ['' @ category (reqs ! i) @ ''] '' @ text (reqs ! i))"
  using requirementsText_split [OF assms]
  by (simp add: rfpRequirementsText_eq length_map_index nth_map_index requirementLine_def)

theorem requirementsText_one_line_per_requirement_witness:
  "split_on newline (requirementsText
      [\<lparr>text = ''Must use licensed contractor'', category = ''Compliance''\<rparr>,
       \<lparr>text = ''Budget under $500k'', category = ''Financial''\<rparr>])
     = [''1. [Compliance] Must use licensed contractor'', ''2. [Financial] Budget under $500k'']
   \<and> length (split_on newline (rfpRequirementsText
      \<lparr>title = ''Acme Office Renovation'', rawText = ''...'', requirements =
        [\<lparr>text = ''Must use licensed contractor'', category = ''Compliance''\<rparr>,
         \<lparr>text = ''Budget under $500k'', category = ''Financial''\<rparr>]\<rparr>)) = 2"
proof -
  let ?reqs = "[\<lparr>text = ''Must use licensed contractor'', category = ''Compliance''\<rparr>,
       \<lparr>text = ''Budget under $500k'', category = ''Financial''\<rparr>]"
  have ne: "?reqs \<noteq> []" by simp
  have nl: "\<forall>r\<in>set ?reqs. newline \<notin> set (text r) \<and> newline \<notin> set (category r)"
    by (simp add: newline_def)
  have one: "show_nat (0 + 1) = ''1''"
    by code_simp
  have two: "show_nat (1 + 1) = ''2''"
    by code_simp
  note th = requirementsText_one_line_per_requirement
    [OF ne nl, of "''Acme Office Renovation''" "''...''"]
  from th have len: "length (split_on newline (requirementsText ?reqs)) = 2" by simp
  from th have l0: "split_on newline (requirementsText ?reqs) ! 0 =
      ''1. [Compliance] Must use licensed contractor''"
    using one by simp
  from th have l1: "split_on newline (requirementsText ?reqs) ! 1 =
      ''2. [Financial] Budget under $500k''"
    using two by simp
  from th have len': "length (split_on newline (rfpRequirementsText
      \<lparr>title = ''Acme Office Renovation'', rawText = ''...'', requirements = ?reqs\<rparr>)) = 2"
    by simp
  have "split_on newline (requirementsText ?reqs) =
      [''1. [Compliance] Must use licensed contractor'', ''2. [Financial] Budget under $500k'']"
    using len l0 l1 by (auto simp: list_eq_iff_nth_eq less_Suc_eq numeral_2_eq_2)
  with len' show ?thesis by simp
qed

section \<open>Schema validation and the assessment output\<close>

lemma zparse_ZString_Some: "zparse ZString v = Some w \<longleftrightarrow> (\<exists>s. v = JStr s \<and> w = JStr s)"
  by (cases v) auto

lemma zparse_ZNumber_Some: "zparse ZNumber v = Some w \<longleftrightarrow> (\<exists>n. v = JNum n \<and> w = JNum n)"
  by (cases v) auto

lemma zparse_ZBoolean_Some: "zparse ZBoolean v = Some w \<longleftrightarrow> (\<exists>b. v = JBool b \<and> w = JBool b)"
  by (cases v) auto

lemma those_map_Some:
  "those (map f xs) = Some ys \<Longrightarrow> \<forall>y\<in>set ys. \<exists>x\<in>set xs. f x = Some y"
proof (induction xs arbitrary: ys)
  case Nil
  then show ?case by simp
next
  case (Cons a xs)
  from Cons.prems obtain y zs where y: "f a = Some y" and zs: "those (map f xs) = Some zs"
    and ys: "ys = y # zs"
    by (auto split: option.splits)
  from Cons.IH [OF zs] y ys show ?case by auto
qed

lemma those_map_id:
  "(\<And>x. f (g x) = Some (g x)) \<Longrightarrow> those (map (f \<circ> g) xs) = Some (map g xs)"
  by (induction xs) auto

lemma zparse_ZArray_Some:
  "zparse (ZArray s) v = Some w \<longleftrightarrow>
     (\<exists>xs ys. v = JArr xs \<and> w = JArr ys \<and> those (map (zparse s) xs) = Some ys)"
  by (cases v) auto

lemma zparse_ZObject_Some:
  "zparse (ZObject fs) v = Some w \<longleftrightarrow>
     (\<exists>kvs out. v = JObj kvs \<and> w = JObj out \<and>
        those (map (\<lambda>(k, s). case map_of kvs k of
                                 None \<Rightarrow> None
                               | Some v \<Rightarrow> map_option (Pair k) (zparse s v)) fs) = Some out)"
  by (cases v) auto

lemma zparse_bidRequirement_shape:
  assumes "zparse (ZObject
         [(''text'', ZString),
          (''category'', ZString),
          (''isSatisfied'', ZBoolean),
          (''reason'', ZString)]) j = Some out"
  shows "\<exists>r. out = BidRequirement_json r"
proof -
  from assms obtain t c s r where
    "out = JObj [(''text'', JStr t), (''category'', JStr c), (''isSatisfied'', JBool s), (''reason'', JStr r)]"
    by (auto simp: zparse_ZObject_Some zparse_ZString_Some zparse_ZBoolean_Some
        split: option.splits)
  then have "out = BidRequirement_json \<lparr>text = t, category = c, isSatisfied = s, reason = r\<rparr>"
    by (simp add: BidRequirement_json_def)
  then show ?thesis ..
qed

lemma zparse_bid_shape:
  assumes "zparse bidSchema j = Some out"
  shows "\<exists>b. out = BidData_json b"
proof -
  from assms obtain t raw c tl xs ys where out:
    "out = JObj [(''title'', JStr t), (''rawText'', JStr raw), (''totalCost'', JNum c),
       (''timeline'', JStr tl), (''requirements'', JArr ys)]"
    and ys: "those (map (zparse (ZObject
         [(''text'', ZString),
          (''category'', ZString),
          (''isSatisfied'', ZBoolean),
          (''reason'', ZString)])) xs) = Some ys"
    unfolding bidSchema_def
    by (auto simp: zparse_ZObject_Some zparse_ZString_Some zparse_ZNumber_Some
        zparse_ZArray_Some split: option.splits)
  have "\<forall>y\<in>set ys. \<exists>r. y = BidRequirement_json r"
    using those_map_Some [OF ys] zparse_bidRequirement_shape by blast
  then obtain rs where "ys = map BidRequirement_json rs"
    using ex_map_conv [of ys BidRequirement_json] by blast
  with out have "out = BidData_json
      \<lparr>title = t, rawText = raw, requirements = rs, totalCost = c, timeline = tl\<rparr>"
    by (simp add: BidData_json_def)
  then show ?thesis ..
qed

lemma zparse_BidRequirement_json:
  "zparse (ZObject
         [(''text'', ZString),
          (''category'', ZString),
          (''isSatisfied'', ZBoolean),
          (''reason'', ZString)]) (BidRequirement_json r) = Some (BidRequirement_json r)"
  by (simp add: BidRequirement_json_def)

lemma zparse_BidData_json: "zparse bidSchema (BidData_json b) = Some (BidData_json b)"
  by (simp add: bidSchema_def BidData_json_def those_map_id zparse_BidRequirement_json)

lemma generateText_Inr:
  "generateText sch outcome = Inr out \<longleftrightarrow>
     (\<exists>reply. outcome = Inr reply \<and> zparse sch reply = Some out)"
  by (auto simp: generateText_def split: sum.splits option.splits)

lemma generateText_violation:
  "zparse sch reply = None \<Longrightarrow> generateText sch (Inr reply) = Inl NoObjectGeneratedError"
  by (simp add: generateText_def)

lemma POST_bid_200:
  assumes "status (fst (POST_bid request e)) = 200"
  shows "\<exists>out. generateText bidSchema (model_outcome e) = Inr out
           \<and> body (fst (POST_bid request e)) = OutputBody out"
  using assms
  by (auto simp: POST_bid_def bid_try_def catch_error_def Let_def
      split: form_request.splits option.splits requirements_json.splits if_splits sum.splits
        thrown.splits)

text \<open>
  C3: a successful assessment returns a record of the shape
  \<^verbatim>\<open>{title, rawText, totalCost, timeline, requirements:[{text, category, isSatisfied, reason}]}\<close>,
  that is, the JSON object of some \<^verbatim>\<open>BidData\<close>; and when the reply of the model
  violates \<^verbatim>\<open>bidSchema\<close> the route does not succeed: it answers with an error body.
\<close>

theorem assessment_output_conforms:
  "(status (fst (POST_bid request e)) = 200 \<longrightarrow>
      (\<exists>b. body (fst (POST_bid request e)) = OutputBody (BidData_json b)))
   \<and> (model_outcome e = Inr reply \<and> zparse bidSchema reply = None \<longrightarrow>
      status (fst (POST_bid request e)) \<noteq> 200
      \<and> (\<exists>message. body (fst (POST_bid request e)) = ErrorBody message))"
proof (intro conjI impI)
  assume "status (fst (POST_bid request e)) = 200"
  from POST_bid_200 [OF this] obtain out reply where
    "zparse bidSchema reply = Some out" and "body (fst (POST_bid request e)) = OutputBody out"
    by (auto simp: generateText_Inr)
  with zparse_bid_shape show "\<exists>b. body (fst (POST_bid request e)) = OutputBody (BidData_json b)"
    by metis
next
  assume a: "model_outcome e = Inr reply \<and> zparse bidSchema reply = None"
  then have g: "generateText bidSchema (model_outcome e) = Inl NoObjectGeneratedError"
    by (simp add: generateText_violation)
  show "status (fst (POST_bid request e)) \<noteq> 200"
    using POST_bid_200 [of request e] g by auto
  show "\<exists>message. body (fst (POST_bid request e)) = ErrorBody message"
    using g
    by (auto simp: POST_bid_def bid_try_def catch_error_def Let_def
      split: form_request.splits option.splits requirements_json.splits if_splits sum.splits
        thrown.splits)
qed

theorem assessment_output_conforms_witness:
  "status (fst (POST_bid example_bid_request (example_env (Inr (BidData_json example_bid)) None))) = 200
   \<and> (\<exists>b. body (fst (POST_bid example_bid_request
          (example_env (Inr (BidData_json example_bid)) None))) = OutputBody (BidData_json b))
   \<and> model_outcome (example_env (Inr (RFPData_json example_rfp)) None) = Inr (RFPData_json example_rfp)
   \<and> zparse bidSchema (RFPData_json example_rfp) = None
   \<and> status (fst (POST_bid example_bid_request
          (example_env (Inr (RFPData_json example_rfp)) None))) \<noteq> 200
   \<and> (\<exists>message. body (fst (POST_bid example_bid_request
          (example_env (Inr (RFPData_json example_rfp)) None))) = ErrorBody message)"
proof -
  let ?ok = "example_env (Inr (BidData_json example_bid)) None"
  let ?bad = "example_env (Inr (RFPData_json example_rfp)) None"
  have ok: "status (fst (POST_bid example_bid_request ?ok)) = 200"
    by (simp add: POST_bid_def bid_try_def example_bid_request_def example_env_def
        example_file_def maxSize_def generateText_def zparse_BidData_json catch_error_def)
  have bad: "model_outcome ?bad = Inr (RFPData_json example_rfp)
      \<and> zparse bidSchema (RFPData_json example_rfp) = None"
    by (simp add: example_env_def bidSchema_def RFPData_json_def)
  from assessment_output_conforms [where request = example_bid_request and e = ?ok] ok
    assessment_output_conforms [where request = example_bid_request and e = ?bad
      and reply = "RFPData_json example_rfp"] bad
  show ?thesis by blast
qed

section \<open>Validation and cleanup of the upload routes\<close>

lemma POST_rfp_rejects:
  assumes "file_type f \<noteq> ''application/pdf'' \<or> file_size f > 10 * 1024 * 1024"
  shows "status (fst (POST_rfp (FormData (Some f)) e)) = 400
     \<and> snd (POST_rfp (FormData (Some f)) e) = []"
  using assms by (auto simp: POST_rfp_def rfp_try_def catch_error_def cleanup_def maxSize_def)

lemma POST_bid_rejects:
  assumes "file_type f \<noteq> ''application/pdf'' \<or> file_size f > 10 * 1024 * 1024"
  shows "status (fst (POST_bid (FormData \<lparr>form_file = Some f, form_requirements = rq\<rparr>) e)) = 400
     \<and> snd (POST_bid (FormData \<lparr>form_file = Some f, form_requirements = rq\<rparr>) e) = []"
  using assms by (auto simp: POST_bid_def bid_try_def catch_error_def cleanup_def maxSize_def
      split: option.splits requirements_json.splits)

text \<open>
  C5: a payload that is not of type \<^verbatim>\<open>application/pdf\<close>, or that is larger than
  10 MiB, is rejected by the extraction route and by the assessment route (whatever the
  requirements field holds) with status 400, and the route makes no call at all: nothing
  is staged.
\<close>

theorem upload_validation_rejects:
  assumes "file_type f \<noteq> ''application/pdf'' \<or> file_size f > 10 * 1024 * 1024"
  shows "status (fst (POST_rfp (FormData (Some f)) e)) = 400
     \<and> snd (POST_rfp (FormData (Some f)) e) = []
     \<and> status (fst (POST_bid (FormData \<lparr>form_file = Some f, form_requirements = rq\<rparr>) e)) = 400
     \<and> snd (POST_bid (FormData \<lparr>form_file = Some f, form_requirements = rq\<rparr>) e) = []"
  using POST_rfp_rejects [OF assms] POST_bid_rejects [OF assms] by simp

theorem upload_validation_rejects_witness:
  "status (fst (POST_rfp (FormData (Some \<lparr>file_name = ''notes.txt'', file_type = ''text/plain'',
        file_size = 12\<rparr>)) (example_env (Inr JNull) None))) = 400
   \<and> snd (POST_bid (FormData \<lparr>form_file = Some \<lparr>file_name = ''big.pdf'',
        file_type = ''application/pdf'', file_size = 10 * 1024 * 1024 + 1\<rparr>,
        form_requirements = Some (ParsesToArray example_requirements)\<rparr>)
        (example_env (Inr JNull) None)) = []"
proof -
  have a: "file_type \<lparr>file_name = ''notes.txt'', file_type = ''text/plain'', file_size = 12\<rparr>
      \<noteq> ''application/pdf''
    \<or> file_size \<lparr>file_name = ''notes.txt'', file_type = ''text/plain'', file_size = 12\<rparr>
      > 10 * 1024 * 1024"
    by simp
  have b: "file_type \<lparr>file_name = ''big.pdf'', file_type = ''application/pdf'',
        file_size = 10 * 1024 * 1024 + 1\<rparr> \<noteq> ''application/pdf''
    \<or> file_size \<lparr>file_name = ''big.pdf'', file_type = ''application/pdf'',
        file_size = 10 * 1024 * 1024 + 1\<rparr> > 10 * 1024 * 1024"
    by simp
  from upload_validation_rejects [OF a] upload_validation_rejects [OF b]
  show ?thesis by blast
qed

lemma rfp_try_staged:
  assumes "put_outcome e = Inr url" and "url \<noteq> []"
    and "rfp_try rq e = (c, blobUrl, effs)" and "BlobPut n \<in> set effs"
  shows "blobUrl = Some url
    \<and> (effs = [BlobPut n] \<and> (\<exists>t. c = Throw t)
        \<or> effs = [BlobPut n, ModelCall [FilePart url]])"
  using assms
  by (auto simp: rfp_try_def Let_def
      split: form_request.splits option.splits if_splits sum.splits)

lemma bid_try_staged:
  assumes "put_outcome e = Inr url" and "url \<noteq> []"
    and "bid_try rq e = (c, blobUrl, effs)" and "BlobPut n \<in> set effs"
  shows "blobUrl = Some url
    \<and> (effs = [BlobPut n] \<and> (\<exists>t. c = Throw t)
        \<or> (\<exists>p. effs = [BlobPut n, ModelCall [FilePart url, TextPart p]]))"
  using assms
  by (auto simp: bid_try_def Let_def
      split: form_request.splits option.splits if_splits sum.splits requirements_json.splits)

lemma rfp_try_del_outcome: "rfp_try rq (e\<lparr>del_outcome := d\<rparr>) = rfp_try rq e"
  by (simp add: rfp_try_def Let_def split: form_request.split option.split sum.split)

lemma bid_try_del_outcome: "bid_try rq (e\<lparr>del_outcome := d\<rparr>) = bid_try rq e"
  by (simp add: bid_try_def Let_def
      split: form_request.split option.split sum.split requirements_json.split)

lemma service_calls_catch_error:
  "service_calls (snd (catch_error label fallback c)) = []"
  by (simp add: catch_error_def service_calls_def split: completion.splits)

lemma catch_error_Throw_status: "status (fst (catch_error label fallback (Throw t))) = 500"
  by (simp add: catch_error_def)

lemma service_calls_append: "service_calls (xs @ ys) = service_calls xs @ service_calls ys"
  by (simp add: service_calls_def)

lemma service_calls_cleanup:
  "url \<noteq> [] \<Longrightarrow> service_calls (cleanup (Some url) e) = [BlobDel url]"
  by (simp add: cleanup_def service_calls_def split: option.splits)

lemma cleanup_del_throws:
  "url \<noteq> [] \<Longrightarrow> cleanup (Some url) (e\<lparr>del_outcome := Some t\<rparr>) =
     cleanup (Some url) (e\<lparr>del_outcome := None\<rparr>) @ [ConsoleError ''Error cleaning up blob file:'']"
  by (simp add: cleanup_def)

lemma POST_rfp_cleanup:
  assumes "put_outcome e = Inr url" and "url \<noteq> []"
    and "BlobPut n \<in> set (snd (POST_rfp rq e))"
  shows "(service_calls (snd (POST_rfp rq e)) = [BlobPut n, BlobDel url]
            \<and> status (fst (POST_rfp rq e)) = 500
          \<or> service_calls (snd (POST_rfp rq e)) =
              [BlobPut n, ModelCall [FilePart url], BlobDel url])
    \<and> snd (POST_rfp rq (e\<lparr>del_outcome := Some t\<rparr>)) =
        snd (POST_rfp rq (e\<lparr>del_outcome := None\<rparr>)) @ [ConsoleError ''Error cleaning up blob file:'']"
proof -
  obtain c blobUrl effs where tr: "rfp_try rq e = (c, blobUrl, effs)"
    by (cases "rfp_try rq e") auto
  obtain r logged where ce:
    "catch_error ''Error processing RFP:'' ''Failed to process RFP document'' c = (r, logged)"
    by (cases "catch_error ''Error processing RFP:'' ''Failed to process RFP document'' c") auto
  have post: "POST_rfp rq e = (r, effs @ logged @ cleanup blobUrl e)"
    by (simp add: POST_rfp_def tr ce)
  have lg: "service_calls logged = []"
    using service_calls_catch_error [of "''Error processing RFP:''" "''Failed to process RFP document''" c]
    by (simp add: ce)
  have "BlobPut n \<notin> set logged"
    using ce by (auto simp: catch_error_def split: completion.splits)
  moreover have "BlobPut n \<notin> set (cleanup blobUrl e)"
    by (auto simp: cleanup_def split: option.splits if_splits)
  ultimately have "BlobPut n \<in> set effs" using assms(3) post by auto
  from rfp_try_staged [OF assms(1,2) tr this]
  have bu: "blobUrl = Some url"
    and effs: "effs = [BlobPut n] \<and> (\<exists>t. c = Throw t) \<or> effs = [BlobPut n, ModelCall [FilePart url]]"
    by auto
  have st: "(\<exists>t. c = Throw t) \<Longrightarrow> status r = 500"
    using ce catch_error_Throw_status by (metis fst_conv)
  have 1: "service_calls (snd (POST_rfp rq e)) = [BlobPut n, BlobDel url]
            \<and> status (fst (POST_rfp rq e)) = 500
          \<or> service_calls (snd (POST_rfp rq e)) =
              [BlobPut n, ModelCall [FilePart url], BlobDel url]"
    using effs st
    by (auto simp: post bu service_calls_append lg service_calls_cleanup assms(2))
       (simp_all add: service_calls_def)
  have 2: "snd (POST_rfp rq (e\<lparr>del_outcome := Some t\<rparr>)) =
        snd (POST_rfp rq (e\<lparr>del_outcome := None\<rparr>)) @ [ConsoleError ''Error cleaning up blob file:'']"
    by (simp add: POST_rfp_def rfp_try_del_outcome tr ce bu cleanup_del_throws assms(2))
  from 1 2 show ?thesis by simp
qed

lemma POST_rfp_del_outcome: "fst (POST_rfp rq (e\<lparr>del_outcome := d\<rparr>)) = fst (POST_rfp rq e)"
  by (simp add: POST_rfp_def rfp_try_del_outcome split: prod.splits)

lemma POST_bid_del_outcome: "fst (POST_bid rq (e\<lparr>del_outcome := d\<rparr>)) = fst (POST_bid rq e)"
  by (simp add: POST_bid_def bid_try_del_outcome split: prod.splits)

lemma POST_bid_cleanup:
  assumes "put_outcome e = Inr url" and "url \<noteq> []"
    and "BlobPut n \<in> set (snd (POST_bid rq e))"
  shows "(service_calls (snd (POST_bid rq e)) = [BlobPut n, BlobDel url]
            \<and> status (fst (POST_bid rq e)) = 500
          \<or> (\<exists>p. service_calls (snd (POST_bid rq e)) =
              [BlobPut n, ModelCall [FilePart url, TextPart p], BlobDel url]))
    \<and> snd (POST_bid rq (e\<lparr>del_outcome := Some t\<rparr>)) =
        snd (POST_bid rq (e\<lparr>del_outcome := None\<rparr>)) @ [ConsoleError ''Error cleaning up blob file:'']"
proof -
  obtain c blobUrl effs where tr: "bid_try rq e = (c, blobUrl, effs)"
    by (cases "bid_try rq e") auto
  obtain r logged where ce:
    "catch_error ''Error processing bid:'' ''Failed to process bid document'' c = (r, logged)"
    by (cases "catch_error ''Error processing bid:'' ''Failed to process bid document'' c") auto
  have post: "POST_bid rq e = (r, effs @ logged @ cleanup blobUrl e)"
    by (simp add: POST_bid_def tr ce)
  have lg: "service_calls logged = []"
    using service_calls_catch_error [of "''Error processing bid:''" "''Failed to process bid document''" c]
    by (simp add: ce)
  have "BlobPut n \<notin> set logged"
    using ce by (auto simp: catch_error_def split: completion.splits)
  moreover have "BlobPut n \<notin> set (cleanup blobUrl e)"
    by (auto simp: cleanup_def split: option.splits if_splits)
  ultimately have "BlobPut n \<in> set effs" using assms(3) post by auto
  from bid_try_staged [OF assms(1,2) tr this]
  have bu: "blobUrl = Some url"
    and effs: "effs = [BlobPut n] \<and> (\<exists>t. c = Throw t)
       \<or> (\<exists>p. effs = [BlobPut n, ModelCall [FilePart url, TextPart p]])"
    by auto
  have st: "(\<exists>t. c = Throw t) \<Longrightarrow> status r = 500"
    using ce catch_error_Throw_status by (metis fst_conv)
  have 1: "service_calls (snd (POST_bid rq e)) = [BlobPut n, BlobDel url]
            \<and> status (fst (POST_bid rq e)) = 500
          \<or> (\<exists>p. service_calls (snd (POST_bid rq e)) =
              [BlobPut n, ModelCall [FilePart url, TextPart p], BlobDel url])"
    using effs st
    by (auto simp: post bu service_calls_append lg service_calls_cleanup assms(2))
       (simp_all add: service_calls_def)
  have 2: "snd (POST_bid rq (e\<lparr>del_outcome := Some t\<rparr>)) =
        snd (POST_bid rq (e\<lparr>del_outcome := None\<rparr>)) @ [ConsoleError ''Error cleaning up blob file:'']"
    by (simp add: POST_bid_def bid_try_del_outcome tr ce bu cleanup_del_throws assms(2))
  from 1 2 show ?thesis by simp
qed

text \<open>
  C6: when staging succeeded (\<^verbatim>\<open>put\<close> was called and returned a non-empty URL), the
  calls of the route end with the deletion of that URL: it follows the model call when
  there is one, whether the call succeeded or failed, and it follows the staging directly
  when the route failed before the model was called. An error of the deletion adds one
  log line and nothing else, and the response never depends on the outcome of the
  deletion, so a successful result is returned unchanged when cleanup fails.
\<close>

theorem staged_blob_is_deleted:
  assumes "put_outcome e = Inr url" and "url \<noteq> []"
  shows "(BlobPut n \<in> set (snd (POST_rfp rq e)) \<longrightarrow>
            (service_calls (snd (POST_rfp rq e)) = [BlobPut n, BlobDel url]
               \<and> status (fst (POST_rfp rq e)) = 500
             \<or> service_calls (snd (POST_rfp rq e)) =
                 [BlobPut n, ModelCall [FilePart url], BlobDel url])
            \<and> snd (POST_rfp rq (e\<lparr>del_outcome := Some t\<rparr>)) =
                snd (POST_rfp rq (e\<lparr>del_outcome := None\<rparr>))
                @ [ConsoleError ''Error cleaning up blob file:''])
    \<and> fst (POST_rfp rq (e\<lparr>del_outcome := d\<rparr>)) = fst (POST_rfp rq e)
    \<and> (BlobPut m \<in> set (snd (POST_bid rb e)) \<longrightarrow>
            (service_calls (snd (POST_bid rb e)) = [BlobPut m, BlobDel url]
               \<and> status (fst (POST_bid rb e)) = 500
             \<or> (\<exists>p. service_calls (snd (POST_bid rb e)) =
                 [BlobPut m, ModelCall [FilePart url, TextPart p], BlobDel url]))
            \<and> snd (POST_bid rb (e\<lparr>del_outcome := Some t\<rparr>)) =
                snd (POST_bid rb (e\<lparr>del_outcome := None\<rparr>))
                @ [ConsoleError ''Error cleaning up blob file:''])
    \<and> fst (POST_bid rb (e\<lparr>del_outcome := d\<rparr>)) = fst (POST_bid rb e)"
  using POST_rfp_cleanup [OF assms] POST_bid_cleanup [OF assms]
  by (simp add: POST_rfp_del_outcome POST_bid_del_outcome)

lemma show_nat_1700: "show_nat 1700 = ''1700''"
  by code_simp

lemma example_extraction_ok:
  "POST_rfp (FormData (Some example_file)) (example_env (Inr (RFPData_json example_rfp)) d) =
     (\<lparr>status = 200, body = OutputBody (RFPData_json example_rfp)\<rparr>,
      [BlobPut ''rfp-1700-doc.pdf'', ModelCall [FilePart ''https://blob.example/doc.pdf'']]
      @ cleanup (Some ''https://blob.example/doc.pdf'') (example_env (Inr (RFPData_json example_rfp)) d))"
  by (simp add: POST_rfp_def rfp_try_def example_file_def example_env_def maxSize_def
      show_nat_1700 generateText_def catch_error_def rfpSchema_def RFPData_json_def
      example_rfp_def example_requirements_def Requirement_json_def)

lemma example_extraction_model_fails:
  "POST_rfp (FormData (Some example_file)) (example_env (Inl (Error ''overloaded'')) d) =
     (\<lparr>status = 500, body = ErrorBody ''overloaded''\<rparr>,
      [BlobPut ''rfp-1700-doc.pdf'', ModelCall [FilePart ''https://blob.example/doc.pdf''],
       ConsoleError ''Error processing RFP:'']
      @ cleanup (Some ''https://blob.example/doc.pdf'') (example_env (Inl (Error ''overloaded'')) d))"
  by (simp add: POST_rfp_def rfp_try_def example_file_def example_env_def maxSize_def
      show_nat_1700 generateText_def catch_error_def)

theorem staged_blob_is_deleted_witness:
  "put_outcome (example_env (Inr (RFPData_json example_rfp)) None) = Inr ''https://blob.example/doc.pdf''
   \<and> BlobPut ''rfp-1700-doc.pdf'' \<in> set (snd (POST_rfp (FormData (Some example_file))
         (example_env (Inr (RFPData_json example_rfp)) None)))
   \<and> service_calls (snd (POST_rfp (FormData (Some example_file))
         (example_env (Inr (RFPData_json example_rfp)) None))) =
       [BlobPut ''rfp-1700-doc.pdf'', ModelCall [FilePart ''https://blob.example/doc.pdf''],
        BlobDel ''https://blob.example/doc.pdf'']
   \<and> fst (POST_rfp (FormData (Some example_file))
         (example_env (Inr (RFPData_json example_rfp)) (Some NonError))) =
       \<lparr>status = 200, body = OutputBody (RFPData_json example_rfp)\<rparr>
   \<and> BlobPut ''rfp-1700-doc.pdf'' \<in> set (snd (POST_rfp (FormData (Some example_file))
         (example_env (Inl (Error ''overloaded'')) None)))
   \<and> service_calls (snd (POST_rfp (FormData (Some example_file))
         (example_env (Inl (Error ''overloaded'')) None))) =
       [BlobPut ''rfp-1700-doc.pdf'', ModelCall [FilePart ''https://blob.example/doc.pdf''],
        BlobDel ''https://blob.example/doc.pdf'']"
proof -
  let ?rq = "FormData (Some example_file) :: File option form_request"
  let ?ok = "example_env (Inr (RFPData_json example_rfp)) None"
  let ?ko = "example_env (Inl (Error ''overloaded'')) None"
  let ?url = "''https://blob.example/doc.pdf''"
  have put: "put_outcome ?ok = Inr ?url" "put_outcome ?ko = Inr ?url"
    by (simp_all add: example_env_def)
  have ne: "?url \<noteq> []" by simp
  have upd: "?ok\<lparr>del_outcome := Some NonError\<rparr> =
      example_env (Inr (RFPData_json example_rfp)) (Some NonError)"
    by (simp add: example_env_def)
  have staged_ok: "BlobPut ''rfp-1700-doc.pdf'' \<in> set (snd (POST_rfp ?rq ?ok))"
    by (simp add: example_extraction_ok)
  have staged_ko: "BlobPut ''rfp-1700-doc.pdf'' \<in> set (snd (POST_rfp ?rq ?ko))"
    by (simp add: example_extraction_model_fails)
  have st_ok: "fst (POST_rfp ?rq ?ok) = \<lparr>status = 200, body = OutputBody (RFPData_json example_rfp)\<rparr>"
    by (simp add: example_extraction_ok)
  have calls_ko: "service_calls (snd (POST_rfp ?rq ?ko)) \<noteq> [BlobPut ''rfp-1700-doc.pdf'', BlobDel ?url]"
    by (simp add: example_extraction_model_fails service_calls_def)
  note ok = staged_blob_is_deleted [OF put(1) ne, where rq = ?rq and n = "''rfp-1700-doc.pdf''"
      and d = "Some NonError"]
  note ko = staged_blob_is_deleted [OF put(2) ne, where rq = ?rq and n = "''rfp-1700-doc.pdf''"]
  have 1: "service_calls (snd (POST_rfp ?rq ?ok)) =
       [BlobPut ''rfp-1700-doc.pdf'', ModelCall [FilePart ?url], BlobDel ?url]"
    using ok staged_ok st_ok by auto
  have 2: "fst (POST_rfp ?rq (example_env (Inr (RFPData_json example_rfp)) (Some NonError))) =
       \<lparr>status = 200, body = OutputBody (RFPData_json example_rfp)\<rparr>"
    using ok st_ok upd by simp
  have 3: "service_calls (snd (POST_rfp ?rq ?ko)) =
       [BlobPut ''rfp-1700-doc.pdf'', ModelCall [FilePart ?url], BlobDel ?url]"
    using ko staged_ko calls_ko by blast
  from put(1) staged_ok staged_ko 1 2 3 show ?thesis by simp
qed

section \<open>The analysis route: schema and satisfaction ratio\<close>

lemma analysisSchema_rejects_AnalysisData:
  "zparse analysisSchema (AnalysisData_json a) = None"
  by (simp add: analysisSchema_def AnalysisData_json_def)

lemma zparse_analysis_keys:
  assumes "zparse analysisSchema j = Some out"
  shows "\<exists>kvs. out = JObj kvs \<and> map fst kvs = [''recommendation'', ''recommendationReason'', ''openQuestions'']"
  using assms unfolding analysisSchema_def
  by (auto simp: zparse_ZObject_Some split: option.splits)

lemma POST_analyze_200:
  assumes "status (fst (POST_analyze request e)) = 200"
  shows "\<exists>out. generateText analysisSchema (model_outcome e) = Inr out
           \<and> body (fst (POST_analyze request e)) = OutputBody out"
  using assms
  by (auto simp: POST_analyze_def analyze_try_def catch_error_def Let_def
      split: analyze_request.splits option.splits if_splits sum.splits)

lemma POST_analyze_never_AnalysisData:
  assumes "status (fst (POST_analyze request e)) = 200"
  shows "body (fst (POST_analyze request e)) \<noteq> OutputBody (AnalysisData_json a)"
proof -
  from POST_analyze_200 [OF assms] obtain out reply where
    z: "zparse analysisSchema reply = Some out"
    and b: "body (fst (POST_analyze request e)) = OutputBody out"
    by (auto simp: generateText_Inr)
  from zparse_analysis_keys [OF z] have "out \<noteq> AnalysisData_json a"
    by (auto simp: AnalysisData_json_def)
  with b show ?thesis by simp
qed

text \<open>
  C2: the route validates the reply against \<^verbatim>\<open>analysisSchema\<close>, whose keys are
  \<^verbatim>\<open>recommendation\<close>, \<^verbatim>\<open>recommendationReason\<close> and \<^verbatim>\<open>openQuestions\<close>. A reply of
  the shape of \<^verbatim>\<open>AnalysisData\<close> (with \<^verbatim>\<open>mainRecommendationReason\<close> and
  \<^verbatim>\<open>supportingRecommendationPoints\<close>) is refused with status 500, and the record of a
  successful call has no \<^verbatim>\<open>mainRecommendationReason\<close>.
\<close>

theorem analysis_route_schema_mismatch:
  "fst (POST_analyze example_analyze_request
          (example_env (Inr (AnalysisData_json example_analysis)) None)) =
     \<lparr>status = 500, body = ErrorBody ''No object generated: response did not match schema.''\<rparr>
   \<and> fst (POST_analyze example_analyze_request
          (example_env (Inr (JObj [(''recommendation'', JStr ''BuildCo Proposal''),
                                   (''recommendationReason'', JStr ''Lowest cost''),
                                   (''openQuestions'', JArr [])])) None)) =
     \<lparr>status = 200,
      body = OutputBody (JObj [(''recommendation'', JStr ''BuildCo Proposal''),
                               (''recommendationReason'', JStr ''Lowest cost''),
                               (''openQuestions'', JArr [])])\<rparr>"
proof (intro conjI)
  show "fst (POST_analyze example_analyze_request
          (example_env (Inr (AnalysisData_json example_analysis)) None)) =
     \<lparr>status = 500, body = ErrorBody ''No object generated: response did not match schema.''\<rparr>"
    by (simp add: POST_analyze_def analyze_try_def example_analyze_request_def example_env_def
        generateText_def analysisSchema_rejects_AnalysisData NoObjectGeneratedError_def
        catch_error_def Let_def)
  show "fst (POST_analyze example_analyze_request
          (example_env (Inr (JObj [(''recommendation'', JStr ''BuildCo Proposal''),
                                   (''recommendationReason'', JStr ''Lowest cost''),
                                   (''openQuestions'', JArr [])])) None)) =
     \<lparr>status = 200,
      body = OutputBody (JObj [(''recommendation'', JStr ''BuildCo Proposal''),
                               (''recommendationReason'', JStr ''Lowest cost''),
                               (''openQuestions'', JArr [])])\<rparr>"
    by (simp add: POST_analyze_def analyze_try_def example_analyze_request_def example_env_def
        generateText_def catch_error_def analysisSchema_def Let_def)
qed

lemma satisfactionPercent_pos:
  "0 < t \<Longrightarrow> satisfactionPercent s t =
     show_int \<lfloor>to_double (to_double (of_nat s / of_nat t) * 100) + (1 / 2 :: rat)\<rfloor>"
  by (simp add: satisfactionPercent_def js_divide_def js_times_def Math_round_def
      number_to_string_def)

text \<open>
  Two quotients whose exact percentage is a tie: the doubles fall below it, and the
  rounded value is the lower integer, as on the host.
\<close>

lemma satisfactionPercent_23_of_40: "satisfactionPercent 23 40 = ''57''"
  by code_simp

lemma satisfactionPercent_29_of_200: "satisfactionPercent 29 200 = ''14''"
  by code_simp

lemma satisfactionPercent_1_of_2: "satisfactionPercent 1 2 = ''50''"
  by code_simp

lemma show_nat_digit: "n < 10 \<Longrightarrow> show_nat n = [digit_char n]"
  by (simp add: show_nat.simps [of n])

text \<open>
  C4: for a bid with no requirements the quotient is \<open>0 / 0\<close>, nothing guards it, and
  the summary sent to the model reads \<^verbatim>\<open>0/0 (NaN%)\<close>.
\<close>

theorem bidSummary_without_requirements:
  "satisfactionPercent (length (filter isSatisfied (requirements empty_bid)))
       (length (requirements empty_bid)) = ''NaN''
   \<and> bidSummary e empty_bid 0 =
       ''Bid 1: BuildCo Proposal'' @ [newline]
       @ ''- Total Cost: $'' @ toLocaleString e 420000 @ [newline]
       @ ''- Timeline: 4 months'' @ [newline]
       @ ''- Requirements Satisfied: 0/0 (NaN%)'' @ [newline]
       @ ''- Requirements Details:'' @ [newline]"
  by (simp add: bidSummary_def empty_bid_def satisfactionPercent_def js_divide_def js_times_def
      Math_round_def number_to_string_def show_nat_digit digit_char_def)

section \<open>The orchestrator: invariant, failures, reset and restore\<close>

lemma project_invariant_initial: "project_invariant initial_state"
  by (simp add: project_invariant_def initial_state_def)

lemma project_invariant_fields:
  "rfpData s' = rfpData s \<Longrightarrow> bids s' = bids s \<Longrightarrow> analysisData s' = analysisData s \<Longrightarrow>
   project_invariant s' = project_invariant s"
  by (simp add: project_invariant_def)

lemma handleRfpFileSelect_project:
  "rfpData (handleRfpFileSelect f s) = rfpData s \<and> bids (handleRfpFileSelect f s) = bids s
   \<and> analysisData (handleRfpFileSelect f s) = analysisData s"
  by (simp add: handleRfpFileSelect_def split: option.splits)

lemma handleBidFileSelect_project:
  "rfpData (handleBidFileSelect f s) = rfpData s \<and> bids (handleBidFileSelect f s) = bids s
   \<and> analysisData (handleBidFileSelect f s) = analysisData s"
  by (simp add: handleBidFileSelect_def split: option.splits)

lemma flight_invariant_initial: "flight_invariant initial_state"
  by (simp add: flight_invariant_def project_invariant_def initial_state_def)

lemma flight_invariant_fields:
  "rfpData s' = rfpData s \<Longrightarrow> bids s' = bids s \<Longrightarrow> analysisData s' = analysisData s \<Longrightarrow>
   isBidUploading s' = isBidUploading s \<Longrightarrow> isAnalyzing s' = isAnalyzing s \<Longrightarrow>
   flight_invariant s' = flight_invariant s"
  by (simp add: flight_invariant_def project_invariant_def)

lemma handleRfpFileSelect_flight:
  "flight_invariant (handleRfpFileSelect f s) = flight_invariant s"
  by (rule flight_invariant_fields) (simp_all add: handleRfpFileSelect_def split: option.splits)

lemma handleBidFileSelect_flight:
  "flight_invariant (handleBidFileSelect f s) = flight_invariant s"
  by (rule flight_invariant_fields) (simp_all add: handleBidFileSelect_def split: option.splits)

lemma completeRfpUpload_flight:
  "flight_invariant s \<Longrightarrow> flight_invariant (completeRfpUpload result s)"
  by (cases result)
     (auto simp: completeRfpUpload_def flight_invariant_def project_invariant_def)

lemma beginRfpUpload_flight:
  "flight_invariant (beginRfpUpload s) = flight_invariant s"
  by (rule flight_invariant_fields) (simp_all add: beginRfpUpload_def)

lemma completeBidUpload_flight:
  "flight_invariant s \<Longrightarrow> isBidUploading s \<Longrightarrow> flight_invariant (completeBidUpload result s)"
  by (cases result)
     (auto simp: completeBidUpload_def flight_invariant_def project_invariant_def)

lemma beginBidUpload_flight:
  "flight_invariant s \<Longrightarrow> rfpData s \<noteq> None \<Longrightarrow> flight_invariant (beginBidUpload s)"
  by (simp add: beginBidUpload_def flight_invariant_def project_invariant_def)

lemma completeAnalyzeAll_flight:
  "flight_invariant s \<Longrightarrow> isAnalyzing s \<Longrightarrow> flight_invariant (completeAnalyzeAll result s)"
  by (cases result)
     (auto simp: completeAnalyzeAll_def flight_invariant_def project_invariant_def)

lemma beginAnalyzeAll_flight:
  "flight_invariant s \<Longrightarrow> bids s \<noteq> [] \<Longrightarrow> flight_invariant (beginAnalyzeAll s)"
  by (simp add: beginAnalyzeAll_def flight_invariant_def project_invariant_def)

lemma handleRfpUpload_flight:
  "flight_invariant s \<Longrightarrow> flight_invariant (handleRfpUpload result s)"
  by (simp add: handleRfpUpload_def completeRfpUpload_flight beginRfpUpload_flight)

lemma beginBidUpload_busy: "isBidUploading (beginBidUpload s)"
  by (simp add: beginBidUpload_def)

lemma beginAnalyzeAll_busy: "isAnalyzing (beginAnalyzeAll s)"
  by (simp add: beginAnalyzeAll_def)

lemma error_update_flight: "flight_invariant (s\<lparr>error := e\<rparr>) = flight_invariant s"
  by (simp add: flight_invariant_def project_invariant_def)

lemma handleBidUpload_flight:
  "flight_invariant s \<Longrightarrow> flight_invariant (handleBidUpload result s)"
  by (cases "bidFile s"; cases "rfpData s")
     (simp_all add: handleBidUpload_def completeBidUpload_flight beginBidUpload_flight
       beginBidUpload_busy)

lemma handleAnalyzeAll_flight:
  "flight_invariant s \<Longrightarrow> flight_invariant (handleAnalyzeAll result s)"
  by (cases "rfpData s"; cases "bids s")
     (simp_all add: handleAnalyzeAll_def completeAnalyzeAll_flight beginAnalyzeAll_flight
       beginAnalyzeAll_busy error_update_flight)

lemma issueRfpUpload_flight:
  "flight_invariant (issueRfpUpload s) = flight_invariant s"
  by (rule flight_invariant_fields) (simp_all add: issueRfpUpload_def beginRfpUpload_def)

lemma settleRfpUpload_flight:
  "flight_invariant s \<Longrightarrow> flight_invariant (settleRfpUpload result s)"
  by (simp add: settleRfpUpload_def completeRfpUpload_flight)

lemma issueBidUpload_flight:
  "flight_invariant s \<Longrightarrow> flight_invariant (issueBidUpload s)"
  by (simp add: issueBidUpload_def beginBidUpload_flight)

lemma settleBidUpload_flight:
  "flight_invariant s \<Longrightarrow> flight_invariant (settleBidUpload result s)"
  by (simp add: settleBidUpload_def completeBidUpload_flight)

lemma issueAnalyzeAll_flight:
  "flight_invariant s \<Longrightarrow> flight_invariant (issueAnalyzeAll s)"
  by (cases "rfpData s"; cases "bids s")
     (simp_all add: issueAnalyzeAll_def beginAnalyzeAll_flight error_update_flight)

lemma settleAnalyzeAll_flight:
  "flight_invariant s \<Longrightarrow> flight_invariant (settleAnalyzeAll result s)"
  by (simp add: settleAnalyzeAll_def completeAnalyzeAll_flight)

lemma ui_rerender: "ui (rerender previous w) = ui w"
  by (simp add: rerender_def saveEffect_def)

lemma ui_step: "ui (step ev w) = ui (handle ev w)"
  by (simp add: step_def ui_rerender)

lemma ui_step_RfpFileSelect: "ui (step (RfpFileSelect f) w) = handleRfpFileSelect f (ui w)"
  by (simp add: ui_step)

lemma ui_step_RfpUpload: "ui (step (RfpUpload result) w) = handleRfpUpload result (ui w)"
  by (simp add: ui_step)

lemma ui_step_BidFileSelect: "ui (step (BidFileSelect f) w) = handleBidFileSelect f (ui w)"
  by (simp add: ui_step)

lemma ui_step_BidUpload: "ui (step (BidUpload result) w) = handleBidUpload result (ui w)"
  by (simp add: ui_step)

lemma ui_step_AnalyzeAll: "ui (step (AnalyzeAll result) w) = handleAnalyzeAll result (ui w)"
  by (simp add: ui_step)

lemma ui_handle_Reload:
  "ui (handle Reload w) = ui (loadEffect \<lparr>ui = initial_state, localStorage = localStorage w, console = []\<rparr>)"
  by (simp add: loadEffect_def split: option.splits sum.splits)

lemma restore_stringify:
  "rfpData (ui (loadEffect \<lparr>ui = initial_state, localStorage = Some (JSON_stringify s), console = c\<rparr>)) = rfpData s
   \<and> bids (ui (loadEffect \<lparr>ui = initial_state, localStorage = Some (JSON_stringify s), console = c\<rparr>)) = bids s
   \<and> analysisData (ui (loadEffect \<lparr>ui = initial_state, localStorage = Some (JSON_stringify s), console = c\<rparr>)) = analysisData s"
  by (simp add: loadEffect_def JSON_stringify_def try_restore_def initial_state_def
      split: option.splits)

lemma restore_None:
  "ui (loadEffect \<lparr>ui = initial_state, localStorage = None, console = c\<rparr>) = initial_state"
  by (simp add: loadEffect_def)

lemma localStorage_loadEffect: "localStorage (loadEffect w) = localStorage w"
  by (simp add: loadEffect_def split: option.splits sum.splits)

lemma localStorage_handle:
  "localStorage (handle ev w) = (if ev = StartNewProject then None else localStorage w)"
  by (cases ev) (simp_all add: handleStartNewProject_def localStorage_loadEffect)

lemma localStorage_rerender:
  "localStorage (rerender previous w) = localStorage w
   \<or> localStorage (rerender previous w) = Some (JSON_stringify (ui w))"
  by (simp add: rerender_def saveEffect_def)

lemma localStorage_step:
  "localStorage (step ev w) = localStorage w
   \<or> localStorage (step ev w) = Some (JSON_stringify (ui (step ev w)))
   \<or> localStorage (step ev w) = None"
proof (cases "ev = StartNewProject")
  case True
  have "localStorage (handle ev w) = None"
    by (simp add: True handleStartNewProject_def)
  with localStorage_rerender [of "ui w" "handle ev w"] show ?thesis
    by (auto simp: step_def True ui_rerender simp del: handle.simps)
next
  case False
  then have "localStorage (handle ev w) = localStorage w"
    by (simp add: localStorage_handle)
  with localStorage_rerender [of "case ev of Reload \<Rightarrow> initial_state | _ \<Rightarrow> ui w" "handle ev w"]
  show ?thesis
    by (auto simp: step_def ui_rerender simp del: handle.simps)
qed

lemma idle_after_Reload:
  "\<not> isBidUploading (ui (handle Reload w)) \<and> \<not> isAnalyzing (ui (handle Reload w))"
  by (simp add: loadEffect_def try_restore_def initial_state_def Let_def
      split: option.splits stored_item.splits parsed.splits property.splits)

lemma world_invariant_handle:
  assumes "world_invariant w"
    and "ev = StartNewProject \<longrightarrow> \<not> isBidUploading (ui w) \<and> \<not> isAnalyzing (ui w)"
  shows "flight_invariant (ui (handle ev w))"
proof -
  from assms(1) have inv: "flight_invariant (ui w)"
    and restored: "project_invariant (ui (handle Reload w))"
    by (simp_all add: world_invariant_def)
  show ?thesis
  proof (cases ev)
    case (RfpFileSelect f)
    then show ?thesis using inv by (simp add: handleRfpFileSelect_flight)
  next
    case (RfpUpload result)
    then show ?thesis using inv by (simp add: handleRfpUpload_flight)
  next
    case (BidFileSelect f)
    then show ?thesis using inv by (simp add: handleBidFileSelect_flight)
  next
    case (BidUpload result)
    then show ?thesis using inv by (simp add: handleBidUpload_flight)
  next
    case (AnalyzeAll result)
    then show ?thesis using inv by (simp add: handleAnalyzeAll_flight)
  next
    case (ToggleBid index)
    then show ?thesis
      using inv by (simp add: flight_invariant_def project_invariant_def)
  next
    case StartNewProject
    with assms(2) show ?thesis
      by (simp add: handleStartNewProject_def flight_invariant_def project_invariant_def)
  next
    case Reload
    with restored idle_after_Reload [of w] show ?thesis
      by (simp add: flight_invariant_def)
  next
    case RfpUploadIssued
    then show ?thesis using inv by (simp add: issueRfpUpload_flight)
  next
    case (RfpUploadSettled result)
    then show ?thesis using inv by (simp add: settleRfpUpload_flight)
  next
    case BidUploadIssued
    then show ?thesis using inv by (simp add: issueBidUpload_flight)
  next
    case (BidUploadSettled result)
    then show ?thesis using inv by (simp add: settleBidUpload_flight)
  next
    case AnalyzeAllIssued
    then show ?thesis using inv by (simp add: issueAnalyzeAll_flight)
  next
    case (AnalyzeAllSettled result)
    then show ?thesis using inv by (simp add: settleAnalyzeAll_flight)
  qed
qed

lemma world_invariant_step:
  assumes "world_invariant w"
    and "ev = StartNewProject \<longrightarrow> \<not> isBidUploading (ui w) \<and> \<not> isAnalyzing (ui w)"
  shows "world_invariant (step ev w)"
proof -
  have a: "flight_invariant (ui (step ev w))"
    using world_invariant_handle [OF assms] by (simp add: ui_step)
  then have a': "project_invariant (ui (step ev w))"
    by (simp add: flight_invariant_def)
  from localStorage_step [of ev w]
  have b: "project_invariant (ui (handle Reload (step ev w)))"
  proof (elim disjE)
    assume "localStorage (step ev w) = localStorage w"
    then have "ui (handle Reload (step ev w)) = ui (handle Reload w)"
      by (simp only: ui_handle_Reload)
    with assms(1) show ?thesis by (simp add: world_invariant_def)
  next
    assume "localStorage (step ev w) = Some (JSON_stringify (ui (step ev w)))"
    then have "ui (handle Reload (step ev w)) =
        ui (loadEffect \<lparr>ui = initial_state,
          localStorage = Some (JSON_stringify (ui (step ev w))), console = []\<rparr>)"
      by (simp only: ui_handle_Reload)
    with a' restore_stringify [of "ui (step ev w)" "[]"] show ?thesis
      by (simp add: project_invariant_def)
  next
    assume "localStorage (step ev w) = None"
    then have "ui (handle Reload (step ev w)) = initial_state"
      by (simp only: ui_handle_Reload restore_None)
    then show ?thesis by (simp add: project_invariant_initial)
  qed
  from a b show ?thesis by (simp add: world_invariant_def)
qed

lemma world_invariant_run:
  "world_invariant w \<Longrightarrow> resets_when_idle evs w \<Longrightarrow> world_invariant (run evs w)"
  by (induction evs arbitrary: w) (simp_all add: world_invariant_step)

lemma world_invariant_world0: "world_invariant world0"
  by (simp add: world_invariant_def world0_def loadEffect_def project_invariant_initial
      flight_invariant_initial)

lemmas session_defs =
  world0_def step_def rerender_def saveEffect_def
  handleRfpFileSelect_def handleBidFileSelect_def validateFile_def example_file_def
  maxSize_def issueRfpUpload_def settleRfpUpload_def issueBidUpload_def settleBidUpload_def
  issueAnalyzeAll_def settleAnalyzeAll_def
  beginRfpUpload_def completeRfpUpload_def beginBidUpload_def completeBidUpload_def
  beginAnalyzeAll_def completeAnalyzeAll_def handleStartNewProject_def
  initial_state_def loadEffect_def try_restore_def JSON_stringify_def

text \<open>
  Start New Project pressed while the assessment of a bid is in flight: the guard of
  \<^verbatim>\<open>handleBidUpload\<close> was passed when the request was issued, the reset clears the RFP,
  and the assessment that arrives is appended to the cleared project. The save effect
  stores that project, and a reload restores it.
\<close>

lemma reset_during_assessment_result:
  "run reset_during_assessment world0 =
     \<lparr>ui = initial_state\<lparr>bids := [example_bid]\<rparr>,
      localStorage = Some (JSON_stringify (initial_state\<lparr>bids := [example_bid]\<rparr>)),
      console = []\<rparr>"
  by (simp add: reset_during_assessment_def session_defs)

lemma reset_during_assessment_restored:
  "ui (run (reset_during_assessment @ [Reload]) world0) =
     initial_state\<lparr>bids := [example_bid]\<rparr>"
  by (simp add: reset_during_assessment_def session_defs)

text \<open>The same during the analysis: it arrives in a project without bids.\<close>

lemma reset_during_analysis_result:
  "run reset_during_analysis world0 =
     \<lparr>ui = initial_state\<lparr>analysisData := Some example_analysis\<rparr>,
      localStorage =
        Some (JSON_stringify (initial_state\<lparr>analysisData := Some example_analysis\<rparr>)),
      console = []\<rparr>"
  by (simp add: reset_during_analysis_def session_defs)

lemma reset_during_assessment_not_idle: "\<not> resets_when_idle reset_during_assessment world0"
  by (simp add: reset_during_assessment_def session_defs)

lemma reset_during_analysis_not_idle: "\<not> resets_when_idle reset_during_analysis world0"
  by (simp add: reset_during_analysis_def session_defs)

text \<open>
  A reset while only the extraction is in flight is a reset of an idle project in the
  sense of \<^const>\<open>resets_when_idle\<close>: the RFP that arrives starts a project with no bids.
\<close>

lemma reset_during_extraction_idle:
  "resets_when_idle
     [RfpFileSelect example_file, RfpUploadIssued, StartNewProject,
      RfpUploadSettled (Ok example_rfp)] world0"
  by (simp add: session_defs)

lemma idle_reset_session_result:
  "ui (run idle_reset_session world0) =
     initial_state\<lparr>rfpData := Some example_rfp, bids := [example_bid],
                    analysisData := Some example_analysis\<rparr>"
  by (simp add: idle_reset_session_def session_defs)

lemma idle_reset_session_idle: "resets_when_idle idle_reset_session world0"
  by (simp add: idle_reset_session_def session_defs)

text \<open>
  C1, as stated, fails: the sequence \<^const>\<open>reset_during_assessment\<close> of page events
  starts from the empty state with an empty store and reaches a state with one bid and
  no RFP, and \<^const>\<open>reset_during_analysis\<close> reaches a state with an analysis and no
  bids.
\<close>

theorem project_invariant_counterexample:
  "bids (ui (run reset_during_assessment world0)) = [example_bid]
   \<and> rfpData (ui (run reset_during_assessment world0)) = None
   \<and> analysisData (ui (run reset_during_analysis world0)) = Some example_analysis
   \<and> bids (ui (run reset_during_analysis world0)) = []"
  by (simp add: reset_during_assessment_result reset_during_analysis_result
      initial_state_def)

text \<open>
  C1 (amended): in every state of the orchestrator that is reached from the empty state,
  with an empty store, by a sequence of events (file selections, extraction, assessment
  and analysis requests issued and settled with any result, at any distance from each
  other, resets, and reloads of the page, which restore the state from the store) in
  which Start New Project is never pressed while an assessment or an analysis request is
  in flight, the bids are non-empty only if the RFP is present and the analysis is
  present only if the bids are non-empty.
\<close>

theorem project_invariant_idle_resets:
  "resets_when_idle evs world0 \<Longrightarrow>
   (bids (ui (run evs world0)) \<noteq> [] \<longrightarrow> rfpData (ui (run evs world0)) \<noteq> None)
   \<and> (analysisData (ui (run evs world0)) \<noteq> None \<longrightarrow> bids (ui (run evs world0)) \<noteq> [])"
  using world_invariant_run [OF world_invariant_world0, of evs]
  by (simp add: world_invariant_def flight_invariant_def project_invariant_def)

theorem project_invariant_idle_resets_witness:
  "resets_when_idle idle_reset_session world0
   \<and> analysisData (ui (run idle_reset_session world0)) \<noteq> None
   \<and> bids (ui (run idle_reset_session world0)) \<noteq> []
   \<and> rfpData (ui (run idle_reset_session world0)) \<noteq> None"
proof -
  have "analysisData (ui (run idle_reset_session world0)) \<noteq> None"
    by (simp add: idle_reset_session_result)
  with project_invariant_idle_resets [OF idle_reset_session_idle] idle_reset_session_idle
  show ?thesis by blast
qed

text \<open>
  When nothing else happens while a request is in flight, issuing it and settling it is
  the handler run in one step.
\<close>

lemma rerender_previous:
  "rfpData p = rfpData q \<Longrightarrow> bids p = bids q \<Longrightarrow> analysisData p = analysisData q \<Longrightarrow>
   rerender p w = rerender q w"
  by (simp add: rerender_def)

lemma issue_then_settle:
  assumes issued: "handle ev1 w = w\<lparr>ui := issue (ui w)\<rparr>"
    and settled: "\<And>v. handle ev2 v = v\<lparr>ui := settle (ui v)\<rparr>"
    and atomic: "handle ev w = w\<lparr>ui := settle (issue (ui w))\<rparr>"
    and fields: "rfpData (issue (ui w)) = rfpData (ui w)" "bids (issue (ui w)) = bids (ui w)"
      "analysisData (issue (ui w)) = analysisData (ui w)"
    and events: "ev1 \<noteq> Reload" "ev2 \<noteq> Reload" "ev \<noteq> Reload"
  shows "run [ev1, ev2] w = step ev w"
proof -
  have not_Reload: "\<And>e (a :: state) b. e \<noteq> Reload \<Longrightarrow> (case e of Reload \<Rightarrow> a | _ \<Rightarrow> b) = b"
    by (simp split: event.splits)
  have first: "step ev1 w = w\<lparr>ui := issue (ui w)\<rparr>"
    by (simp add: step_def not_Reload [OF events(1)] issued rerender_def fields)
  have "step ev2 (step ev1 w) = rerender (issue (ui w)) (w\<lparr>ui := settle (issue (ui w))\<rparr>)"
    by (simp add: step_def [of ev2] not_Reload [OF events(2)] first settled)
  also have "\<dots> = rerender (ui w) (w\<lparr>ui := settle (issue (ui w))\<rparr>)"
    by (rule rerender_previous) (rule fields)+
  also have "\<dots> = step ev w"
    by (simp add: step_def not_Reload [OF events(3)] atomic)
  finally show ?thesis by simp
qed

lemma issue_settle_RfpUpload:
  assumes "\<not> isRfpUploading (ui w)"
  shows "run [RfpUploadIssued, RfpUploadSettled result] w = step (RfpUpload result) w"
proof (rule issue_then_settle [where issue = issueRfpUpload and settle = "settleRfpUpload result"])
  show "handle (RfpUpload result) w = w\<lparr>ui := settleRfpUpload result (issueRfpUpload (ui w))\<rparr>"
    using assms
    by (simp add: handleRfpUpload_def issueRfpUpload_def settleRfpUpload_def beginRfpUpload_def)
qed (simp_all add: issueRfpUpload_def beginRfpUpload_def)

lemma issue_settle_BidUpload:
  assumes "\<not> isBidUploading (ui w)"
  shows "run [BidUploadIssued, BidUploadSettled result] w = step (BidUpload result) w"
proof (rule issue_then_settle [where issue = issueBidUpload and settle = "settleBidUpload result"])
  show "handle (BidUpload result) w = w\<lparr>ui := settleBidUpload result (issueBidUpload (ui w))\<rparr>"
    using assms
    by (simp add: handleBidUpload_def issueBidUpload_def settleBidUpload_def beginBidUpload_def)
qed (simp_all add: issueBidUpload_def beginBidUpload_def)

lemma issue_settle_AnalyzeAll:
  assumes "\<not> isAnalyzing (ui w)"
  shows "run [AnalyzeAllIssued, AnalyzeAllSettled result] w = step (AnalyzeAll result) w"
proof (rule issue_then_settle [where issue = issueAnalyzeAll and settle = "settleAnalyzeAll result"])
  show "handle (AnalyzeAll result) w = w\<lparr>ui := settleAnalyzeAll result (issueAnalyzeAll (ui w))\<rparr>"
    using assms
    by (simp add: handleAnalyzeAll_def issueAnalyzeAll_def settleAnalyzeAll_def
        beginAnalyzeAll_def)
qed (simp_all add: issueAnalyzeAll_def beginAnalyzeAll_def)

lemma example_session_result:
  "ui (run example_session world0) =
     initial_state\<lparr>rfpData := Some example_rfp, bids := [example_bid],
                    analysisData := Some example_analysis\<rparr>"
  by (simp add: example_session_def world0_def step_def rerender_def saveEffect_def
      handleRfpFileSelect_def handleBidFileSelect_def validateFile_def example_file_def
      maxSize_def handleRfpUpload_def handleBidUpload_def handleAnalyzeAll_def
      beginRfpUpload_def completeRfpUpload_def beginBidUpload_def completeBidUpload_def
      beginAnalyzeAll_def completeAnalyzeAll_def
      initial_state_def loadEffect_def try_restore_def JSON_stringify_def)

lemma handleRfpUpload_failed:
  "failed result \<Longrightarrow> rfpData (handleRfpUpload result s) = rfpData s
     \<and> bids (handleRfpUpload result s) = bids s
     \<and> analysisData (handleRfpUpload result s) = analysisData s"
  by (cases result) (simp_all add: handleRfpUpload_def beginRfpUpload_def completeRfpUpload_def)

lemma handleBidUpload_failed:
  "failed result \<Longrightarrow> rfpData (handleBidUpload result s) = rfpData s
     \<and> bids (handleBidUpload result s) = bids s
     \<and> analysisData (handleBidUpload result s) = analysisData s"
  by (cases result) (simp_all add: handleBidUpload_def beginBidUpload_def completeBidUpload_def)

lemma handleAnalyzeAll_failed:
  "failed result \<Longrightarrow> rfpData (handleAnalyzeAll result s) = rfpData s
     \<and> bids (handleAnalyzeAll result s) = bids s
     \<and> analysisData (handleAnalyzeAll result s) = analysisData s"
  by (cases result) (simp_all add: handleAnalyzeAll_def beginAnalyzeAll_def completeAnalyzeAll_def)

lemma step_unchanged:
  assumes "ev \<noteq> Reload" and "ev \<noteq> StartNewProject"
    and "rfpData (ui (handle ev w)) = rfpData (ui w)"
    and "bids (ui (handle ev w)) = bids (ui w)"
    and "analysisData (ui (handle ev w)) = analysisData (ui w)"
  shows "project (step ev w) = project w"
proof -
  have "(case ev of Reload \<Rightarrow> initial_state | _ \<Rightarrow> ui w) = ui w"
    using assms(1) by (cases ev) simp_all
  then have "step ev w = handle ev w"
    using assms(3-5) by (simp add: step_def rerender_def)
  moreover have "localStorage (handle ev w) = localStorage w"
    using assms(2) by (simp add: localStorage_handle)
  ultimately show ?thesis
    using assms(3-5) by (simp add: project_def)
qed

text \<open>
  C7: a stage request that fails (the request is rejected, or the response is not ok)
  leaves the RFP, the bids, the analysis and the durable store as they were; this holds
  for extraction, assessment and analysis, from every state.
\<close>

theorem failed_stage_leaves_project:
  assumes "failed extraction" and "failed assessment" and "failed analysis"
  shows "project (step (RfpUpload extraction) w) = project w
    \<and> project (step (BidUpload assessment) w) = project w
    \<and> project (step (AnalyzeAll analysis) w) = project w"
proof (intro conjI)
  show "project (step (RfpUpload extraction) w) = project w"
    using handleRfpUpload_failed [OF assms(1), of "ui w"] by (intro step_unchanged) simp_all
  show "project (step (BidUpload assessment) w) = project w"
    using handleBidUpload_failed [OF assms(2), of "ui w"] by (intro step_unchanged) simp_all
  show "project (step (AnalyzeAll analysis) w) = project w"
    using handleAnalyzeAll_failed [OF assms(3), of "ui w"] by (intro step_unchanged) simp_all
qed

lemma validateFile_example: "validateFile example_file = None"
  by (simp add: validateFile_def example_file_def maxSize_def)

theorem failed_stage_leaves_project_witness:
  "failed (Rejected NonError :: RFPData fetch_result)
   \<and> failed (NotOk (Some ''File must be a PDF'') :: BidData fetch_result)
   \<and> failed (NotOk None :: AnalysisData fetch_result)
   \<and> bids (ui (step (BidUpload (NotOk (Some ''File must be a PDF'')))
         (step (BidFileSelect example_file) (run example_session world0)))) = [example_bid]
   \<and> error (ui (step (BidUpload (NotOk (Some ''File must be a PDF'')))
         (step (BidFileSelect example_file) (run example_session world0)))) =
       Some ''File must be a PDF''"
proof -
  let ?w = "step (BidFileSelect example_file) (run example_session world0)"
  have f: "failed (Rejected NonError :: RFPData fetch_result)"
    "failed (NotOk (Some ''File must be a PDF'') :: BidData fetch_result)"
    "failed (NotOk None :: AnalysisData fetch_result)"
    by simp_all
  have ui: "ui ?w = initial_state\<lparr>rfpData := Some example_rfp, bids := [example_bid],
      analysisData := Some example_analysis, bidFile := Some example_file\<rparr>"
    by (simp add: ui_step_BidFileSelect example_session_result handleBidFileSelect_def
        validateFile_example initial_state_def)
  have "ui (step (BidUpload (NotOk (Some ''File must be a PDF''))) ?w) =
      handleBidUpload (NotOk (Some ''File must be a PDF'')) (ui ?w)"
    by (rule ui_step_BidUpload)
  then have err: "error (ui (step (BidUpload (NotOk (Some ''File must be a PDF''))) ?w)) =
      Some ''File must be a PDF''"
    by (simp add: ui handleBidUpload_def beginBidUpload_def completeBidUpload_def
        or_fallback_def initial_state_def)
  from failed_stage_leaves_project [OF f, of ?w]
  have "project (step (BidUpload (NotOk (Some ''File must be a PDF''))) ?w) = project ?w"
    by simp
  then have "bids (ui (step (BidUpload (NotOk (Some ''File must be a PDF''))) ?w)) = bids (ui ?w)"
    by (simp add: project_def)
  with f err ui show ?thesis by simp
qed

text \<open>
  The same for a request that was in flight for a while: a failed result that is settled
  leaves the project and its durable copy as they are at that moment.
\<close>

lemma failed_RfpUploadSettled:
  "failed result \<Longrightarrow> project (step (RfpUploadSettled result) w) = project w"
  by (rule step_unchanged; cases result)
     (simp_all add: settleRfpUpload_def completeRfpUpload_def)

lemma failed_BidUploadSettled:
  "failed result \<Longrightarrow> project (step (BidUploadSettled result) w) = project w"
  by (rule step_unchanged; cases result)
     (simp_all add: settleBidUpload_def completeBidUpload_def)

lemma failed_AnalyzeAllSettled:
  "failed result \<Longrightarrow> project (step (AnalyzeAllSettled result) w) = project w"
  by (rule step_unchanged; cases result)
     (simp_all add: settleAnalyzeAll_def completeAnalyzeAll_def)






lemma try_restore_throws:
  "(\<exists>err. try_restore item s = Inl err) \<longleftrightarrow>
     item = EmptyString \<or> item = Malformed \<or> item = Parses ParsedNull"
  by (auto simp: try_restore_def Let_def split: stored_item.splits parsed.splits)

text \<open>
  C10: for every content of the store the load effect completes. Each value thrown in its
  \<^verbatim>\<open>try\<close> block (by \<^verbatim>\<open>JSON.parse\<close> on a malformed string, or by reading a
  property of \<^verbatim>\<open>null\<close>) is caught and logged, and the page then shows the initial,
  empty state; so it does when the item is absent or empty. When the string parses to an
  object, exactly the properties that hold a value are restored, and a property that is
  missing or \<^verbatim>\<open>null\<close> leaves its field at the initial value.
\<close>

theorem startup_restore:
  "ui (step Reload w) =
     (case localStorage w of
        Some (Parses (ParsedObject data)) \<Rightarrow>
          initial_state
            \<lparr>rfpData := (case stored_rfpData data of Value r \<Rightarrow> Some r | _ \<Rightarrow> None),
             bids := (case stored_bids data of Value b \<Rightarrow> b | _ \<Rightarrow> []),
             analysisData := (case stored_analysisData data of Value a \<Rightarrow> Some a | _ \<Rightarrow> None)\<rparr>
      | _ \<Rightarrow> initial_state)
   \<and> console (step Reload w) =
     (case localStorage w of
        Some Malformed \<Rightarrow> console w @ [''Failed to load stored data:'']
      | Some (Parses ParsedNull) \<Rightarrow> console w @ [''Failed to load stored data:'']
      | _ \<Rightarrow> console w)"
proof -
  have c: "console (step Reload w) = console (handle Reload w)"
    by (simp add: step_def rerender_def saveEffect_def)
  have "ui (handle Reload w) =
     (case localStorage w of
        Some (Parses (ParsedObject data)) \<Rightarrow>
          initial_state
            \<lparr>rfpData := (case stored_rfpData data of Value r \<Rightarrow> Some r | _ \<Rightarrow> None),
             bids := (case stored_bids data of Value b \<Rightarrow> b | _ \<Rightarrow> []),
             analysisData := (case stored_analysisData data of Value a \<Rightarrow> Some a | _ \<Rightarrow> None)\<rparr>
      | _ \<Rightarrow> initial_state)"
    by (simp add: loadEffect_def try_restore_def initial_state_def
        split: option.splits stored_item.splits parsed.splits property.splits)
  moreover have "console (handle Reload w) =
     (case localStorage w of
        Some Malformed \<Rightarrow> console w @ [''Failed to load stored data:'']
      | Some (Parses ParsedNull) \<Rightarrow> console w @ [''Failed to load stored data:'']
      | _ \<Rightarrow> console w)"
    by (simp add: loadEffect_def try_restore_def Let_def
        split: option.splits stored_item.splits parsed.splits)
  ultimately show ?thesis
    by (simp only: c ui_step)
qed

theorem startup_restore_witness:
  "ui (step Reload \<lparr>ui = initial_state\<lparr>bids := [example_bid]\<rparr>,
         localStorage = Some (Parses (ParsedObject
           \<lparr>stored_rfpData = Value example_rfp, stored_bids = Undefined,
            stored_analysisData = Null\<rparr>)),
         console = []\<rparr>) = initial_state\<lparr>rfpData := Some example_rfp\<rparr>
   \<and> ui (step Reload \<lparr>ui = initial_state\<lparr>bids := [example_bid]\<rparr>,
         localStorage = Some Malformed, console = []\<rparr>) = initial_state
   \<and> console (step Reload \<lparr>ui = initial_state\<lparr>bids := [example_bid]\<rparr>,
         localStorage = Some Malformed, console = []\<rparr>) = [''Failed to load stored data:'']"
proof -
  let ?u = "initial_state\<lparr>bids := [example_bid]\<rparr>"
  let ?obj = "\<lparr>ui = ?u,
         localStorage = Some (Parses (ParsedObject
           \<lparr>stored_rfpData = Value example_rfp, stored_bids = Undefined,
            stored_analysisData = Null\<rparr>)),
         console = []\<rparr>"
  let ?bad = "\<lparr>ui = ?u, localStorage = Some Malformed, console = []\<rparr>"
  have "ui (step Reload ?obj) = initial_state\<lparr>rfpData := Some example_rfp\<rparr>"
    using startup_restore [of ?obj] by (simp add: initial_state_def)
  moreover have "ui (step Reload ?bad) = initial_state
      \<and> console (step Reload ?bad) = [''Failed to load stored data:'']"
    using startup_restore [of ?bad] by simp
  ultimately show ?thesis by simp
qed

end
